theory Spec2Isabelle
  imports Main "HOL-Library.Word"
begin

unbundle bit_operations_syntax

section \<open>Machine types and constants\<close>

text \<open>
  Every variable and register of the firmware that the model touches is an
  \<^verbatim>\<open>unsigned char\<close> (8 bits, arithmetic modulo 256). C promotes the operands of
  \<^verbatim>\<open>~\<close>, \<^verbatim>\<open>+\<close>, \<^verbatim>\<open>-\<close> and \<^verbatim>\<open><<\<close> to \<^verbatim>\<open>int\<close>; wherever the promoted value is stored
  back into an \<^verbatim>\<open>unsigned char\<close> the low 8 bits are kept, which is the operation on
  \<^typ>\<open>8 word\<close>. Where the promoted value is compared without being stored
  (\<^verbatim>\<open>(nextHexCode - 1) == OFF_CODE\<close>) the comparison is written on \<^typ>\<open>int\<close>.
  A C condition \<^verbatim>\<open>if (x)\<close> is \<open>x \<noteq> 0\<close>.
\<close>

type_synonym u8 = "8 word"

definition BIT0 :: u8 where "BIT0 = 0x01"
definition BIT1 :: u8 where "BIT1 = 0x02"
definition BIT2 :: u8 where "BIT2 = 0x04"
definition BIT3 :: u8 where "BIT3 = 0x08"
definition BIT4 :: u8 where "BIT4 = 0x10"
definition BIT5 :: u8 where "BIT5 = 0x20"
definition BIT6 :: u8 where "BIT6 = 0x40"
definition BIT7 :: u8 where "BIT7 = 0x80"

lemmas BIT_defs = BIT0_def BIT1_def BIT2_def BIT3_def BIT4_def BIT5_def BIT6_def BIT7_def

section \<open>Seven-segment module (sevenSeg.c)\<close>

text \<open>
  Modelled from the spec: the header \<^verbatim>\<open>sevenSeg.h\<close>, which declares the structure
  \<^verbatim>\<open>SEVEN_SEG_DISP\<close> and the constants \<^verbatim>\<open>OFF_CODE\<close> and \<^verbatim>\<open>DASH_CODE\<close>, is not among the
  sources. The specification lists the fields of a display unit (hex digit, decimal-point
  flag, pending pattern, committed pattern, active-low flag) and gives patterns 8 bits.
  The field names are the ones the C files use; their order is the one of the
  initialiser \<^verbatim>\<open>(SEVEN_SEG_DISP){0, DASH_CODE, 0, 0x0, 0x0}\<close> in \<^verbatim>\<open>main\<close>.
\<close>

record SEVEN_SEG_DISP =
  activeLow :: u8
  hexDigit :: u8
  dp :: u8
  nextBinSegCode :: u8
  currBinSegCode :: u8

text \<open>
  Modelled from the spec: \<^verbatim>\<open>OFF_CODE\<close> and \<^verbatim>\<open>DASH_CODE\<close> of the absent header. The comment
  on \<^verbatim>\<open>segCodeTable\<close> in \<^verbatim>\<open>hexToSevSeg\<close> gives \<^verbatim>\<open>OFF_CODE\<close> as \<^verbatim>\<open>0x10\<close>; the table has
  \<^verbatim>\<open>0x12\<close> entries, the last two being the blank pattern \<^verbatim>\<open>0x00\<close> and the dash pattern
  \<^verbatim>\<open>0x40\<close>, which \<^verbatim>\<open>SevSegToHex\<close> maps to \<^verbatim>\<open>OFF_CODE\<close> and \<^verbatim>\<open>DASH_CODE\<close>.
\<close>

definition OFF_CODE :: u8 where "OFF_CODE = 0x10"
definition DASH_CODE :: u8 where "DASH_CODE = 0x11"

definition segCodeTable :: "u8 list" where
  "segCodeTable = [0x3F, 0x06, 0x5B, 0x4F, 0x66, 0x6D, 0x7D, 0x07, 0x7F, 0x6F,
                   0x77, 0x7C, 0x39, 0x5E, 0x79, 0x71, 0x00, 0x40]"

text \<open>
  \<^verbatim>\<open>hexToSevSeg\<close> (sevenSeg.c, lines 34-55). The result is the pair of the returned
  \<^verbatim>\<open>convFail\<close> and the display object after the call. The table is only indexed under
  the guard \<^verbatim>\<open>hexDigit < 0x12\<close>, inside its 18 entries.
\<close>

definition hexToSevSeg :: "SEVEN_SEG_DISP \<Rightarrow> u8 \<times> SEVEN_SEG_DISP" where
  "hexToSevSeg display =
    (let d1 = display\<lparr>nextBinSegCode := (if dp display \<noteq> 0 then BIT7 else 0x00)\<rparr>;
         valid = (hexDigit d1 < 0x12);
         d2 = (if valid
               then d1\<lparr>nextBinSegCode := nextBinSegCode d1 OR segCodeTable ! unat (hexDigit d1)\<rparr>
               else d1);
         convFail = (if valid then 0 else 1);
         d3 = (if activeLow d2 \<noteq> 0 then d2\<lparr>nextBinSegCode := NOT (nextBinSegCode d2)\<rparr> else d2)
     in (convFail, d3))"

text \<open>
  \<^verbatim>\<open>SevSegToHex\<close> (sevenSeg.c, lines 78-153). \<^verbatim>\<open>sevSegCode\<close> is an \<^verbatim>\<open>unsigned char\<close>:
  the complement taken for an active-low display is stored back into 8 bits, so it is the
  8-bit complement of the masked code. The \<^verbatim>\<open>switch\<close> is a chain of comparisons in the
  order of its \<^verbatim>\<open>case\<close> labels. The \<^verbatim>\<open>case 0x40\<close> has no \<^verbatim>\<open>break\<close>: it stores
  \<^verbatim>\<open>DASH_CODE\<close> and runs on into \<^verbatim>\<open>default\<close>, which sets \<^verbatim>\<open>convFail\<close>.
\<close>

definition SevSegToHex :: "SEVEN_SEG_DISP \<Rightarrow> u8 \<times> SEVEN_SEG_DISP" where
  "SevSegToHex display =
    (let masked = currBinSegCode display AND 0x7F;
         sevSegCode = (if activeLow display \<noteq> 0 then NOT masked else masked);
         (convFail, d1) =
           (if sevSegCode = 0x3F then (0, display\<lparr>hexDigit := 0x0\<rparr>)
            else if sevSegCode = 0x06 then (0, display\<lparr>hexDigit := 0x1\<rparr>)
            else if sevSegCode = 0x5B then (0, display\<lparr>hexDigit := 0x2\<rparr>)
            else if sevSegCode = 0x4F then (0, display\<lparr>hexDigit := 0x3\<rparr>)
            else if sevSegCode = 0x66 then (0, display\<lparr>hexDigit := 0x4\<rparr>)
            else if sevSegCode = 0x6D then (0, display\<lparr>hexDigit := 0x5\<rparr>)
            else if sevSegCode = 0x7D then (0, display\<lparr>hexDigit := 0x6\<rparr>)
            else if sevSegCode = 0x07 then (0, display\<lparr>hexDigit := 0x7\<rparr>)
            else if sevSegCode = 0x7F then (0, display\<lparr>hexDigit := 0x8\<rparr>)
            else if sevSegCode = 0x6F then (0, display\<lparr>hexDigit := 0x9\<rparr>)
            else if sevSegCode = 0x77 then (0, display\<lparr>hexDigit := 0xA\<rparr>)
            else if sevSegCode = 0x7C then (0, display\<lparr>hexDigit := 0xB\<rparr>)
            else if sevSegCode = 0x39 then (0, display\<lparr>hexDigit := 0xC\<rparr>)
            else if sevSegCode = 0x5E then (0, display\<lparr>hexDigit := 0xD\<rparr>)
            else if sevSegCode = 0x79 then (0, display\<lparr>hexDigit := 0xE\<rparr>)
            else if sevSegCode = 0x71 then (0, display\<lparr>hexDigit := 0xF\<rparr>)
            else if sevSegCode = 0x00 then (0, display\<lparr>hexDigit := OFF_CODE\<rparr>)
            else if sevSegCode = 0x40 then (1, display\<lparr>hexDigit := DASH_CODE\<rparr>)
            else (1 :: u8, display));
         d2 = (if convFail = 0
               then d1\<lparr>dp := (if currBinSegCode d1 AND BIT7 \<noteq> 0 then 1 else 0)\<rparr>
               else d1)
     in (convFail, d2))"

text \<open>
  The round trip of the codec as the firmware performs it: \<^verbatim>\<open>hexToSevSeg\<close> computes the
  pending pattern from \<^verbatim>\<open>hexDigit\<close> and \<^verbatim>\<open>dp\<close>, the pattern is committed
  (\<^verbatim>\<open>currBinSegCode = nextBinSegCode\<close>, as \<^verbatim>\<open>writeHexToSevSeg\<close> and \<^verbatim>\<open>refreshAllDisps\<close> do
  after the conversion), and \<^verbatim>\<open>SevSegToHex\<close> decodes the committed pattern.
\<close>

definition commit :: "SEVEN_SEG_DISP \<Rightarrow> SEVEN_SEG_DISP" where
  "commit display = display\<lparr>currBinSegCode := nextBinSegCode display\<rparr>"

definition encodeThenDecode :: "SEVEN_SEG_DISP \<Rightarrow> u8 \<times> SEVEN_SEG_DISP" where
  "encodeThenDecode display = SevSegToHex (commit (snd (hexToSevSeg display)))"


section \<open>Serial transport and chip selects (spi.c, geminiControlClient.c)\<close>

text \<open>
  The displays and the LED shift register hang on one SPI bus; the client selects the
  receivers by setting chip-select bits in \<^verbatim>\<open>P3OUT\<close> (\<^verbatim>\<open>DISPS_CSOUT\<close>, one bit per display)
  and \<^verbatim>\<open>P1OUT\<close> (\<^verbatim>\<open>LEDSR_CSOUT\<close>, bit 6) around every \<^verbatim>\<open>usciXNSpiPutChar\<close>. The model
  keeps both registers and the transcript of the bus: every byte loaded into the
  transmit buffer, with the two chip-select registers as they stood at that moment,
  oldest first. The wait loops of \<^verbatim>\<open>usciXNSpiPutChar\<close> poll hardware flags of the USCI
  and \<^verbatim>\<open>__delay_cycles\<close> only spends time; neither has an effect on this state.
\<close>

record bus =
  P3OUT :: u8
  P1OUT :: u8
  sent :: "(u8 \<times> u8 \<times> u8) list"

definition DISP0 :: u8 where "DISP0 = BIT0"
definition ALL_DISPS :: u8 where "ALL_DISPS = 0xFF"
definition TOP_DISPS :: u8 where "TOP_DISPS = 0x0F"
definition BOT_DISPS :: u8 where "BOT_DISPS = 0xF0"
definition LEDSR :: u8 where "LEDSR = BIT6"

definition NUM_DISPS :: nat where "NUM_DISPS = 8"

definition TOP_ROW :: u8 where "TOP_ROW = 0"
definition BOT_ROW :: u8 where "BOT_ROW = 1"
definition ALL_ROWS :: u8 where "ALL_ROWS = 2"

definition HUNDREDS_PLACE :: u8 where "HUNDREDS_PLACE = 0"
definition TENS_PLACE :: u8 where "TENS_PLACE = 1"
definition ONES_PLACE :: u8 where "ONES_PLACE = 2"
definition TENTHS_PLACE :: u8 where "TENTHS_PLACE = 3"

lemmas PLACE_defs = HUNDREDS_PLACE_def TENS_PLACE_def ONES_PLACE_def TENTHS_PLACE_def

text \<open>\<^verbatim>\<open>usciXNSpiPutChar\<close> (spi.c, lines 124-131).\<close>

definition usciXNSpiPutChar :: "bus \<Rightarrow> u8 \<Rightarrow> bus" where
  "usciXNSpiPutChar b txByte = b\<lparr>sent := sent b @ [(P3OUT b, P1OUT b, txByte)]\<rparr>"

text \<open>
  \<^verbatim>\<open>writeHexToSevSeg\<close> (geminiControlClient.c, lines 631-658): the returned \<^verbatim>\<open>errorCode\<close>,
  the bus and the display object after the call. \<^verbatim>\<open>DISP0 << csPortIndex\<close> is stored into
  the 8-bit register \<^verbatim>\<open>P3OUT\<close>, so the shift is the one of \<^typ>\<open>8 word\<close>.
\<close>

definition writeHexToSevSeg :: "bus \<Rightarrow> SEVEN_SEG_DISP \<Rightarrow> u8 \<Rightarrow> u8 \<Rightarrow> u8 \<times> bus \<times> SEVEN_SEG_DISP" where
  "writeHexToSevSeg b display hexCode csPortIndex =
    (if currBinSegCode display = nextBinSegCode display then
       (let (convFail, d1) = hexToSevSeg (display\<lparr>hexDigit := hexCode\<rparr>) in
        if convFail = 0 then
          (let b1 = b\<lparr>P3OUT := P3OUT b OR push_bit (unat csPortIndex) DISP0\<rparr>;
               b2 = usciXNSpiPutChar b1 (nextBinSegCode d1);
               b3 = b2\<lparr>P3OUT := P3OUT b2 AND NOT (push_bit (unat csPortIndex) DISP0)\<rparr>
           in (0, b3, d1\<lparr>currBinSegCode := nextBinSegCode d1\<rparr>))
        else (1, b, d1))
     else if nextBinSegCode display \<noteq> currBinSegCode display then (2, b, display)
     else (0, b, display))"

text \<open>
  \<^verbatim>\<open>refreshAllDisps\<close> (lines 968-980): the body of the \<^verbatim>\<open>for\<close> loop for one \<^verbatim>\<open>dispIndex\<close>,
  and the loop over \<^verbatim>\<open>dispIndex = 0, ..., NUM_DISPS - 1\<close>. The array is the one \<^verbatim>\<open>main\<close>
  declares, of \<^verbatim>\<open>NUM_DISPS\<close> elements.
\<close>

definition refreshDisp :: "nat \<Rightarrow> bus \<times> SEVEN_SEG_DISP list \<Rightarrow> bus \<times> SEVEN_SEG_DISP list" where
  "refreshDisp dispIndex = (\<lambda>(b, displayArr).
    (let d1 = snd (hexToSevSeg (displayArr ! dispIndex));
         d2 = d1\<lparr>currBinSegCode := nextBinSegCode d1\<rparr>;
         b1 = b\<lparr>P3OUT := P3OUT b OR push_bit dispIndex DISP0\<rparr>;
         b2 = usciXNSpiPutChar b1 (currBinSegCode d2);
         b3 = b2\<lparr>P3OUT := P3OUT b2 AND NOT (push_bit dispIndex DISP0)\<rparr>
     in (b3, displayArr[dispIndex := d2])))"

definition refreshAllDisps :: "bus \<Rightarrow> SEVEN_SEG_DISP list \<Rightarrow> bus \<times> SEVEN_SEG_DISP list" where
  "refreshAllDisps b displayArr = fold refreshDisp [0..<NUM_DISPS] (b, displayArr)"

section \<open>Row increment (incDispRow, lines 800-934)\<close>

text \<open>
  Array accesses. The C code indexes \<^verbatim>\<open>displayArr\<close> with \<^verbatim>\<open>dispRowIndex\<close> and with
  \<^verbatim>\<open>(unsigned int)(dispRowIndex + k)\<close>, \<^verbatim>\<open>(unsigned int)(dispRowIndex - k)\<close>, computed in
  \<^verbatim>\<open>int\<close>; the model computes the index in \<^typ>\<open>int\<close>. An index is in bounds when it
  lies in \<open>0 ..< length displayArr\<close>. A read outside the array returns whatever object
  lies there in memory, the parameter \<open>past\<close>; C leaves such a read undefined. A store
  outside the array is not modelled (it leaves the array as it is).
\<close>

definition inBounds :: "SEVEN_SEG_DISP list \<Rightarrow> int \<Rightarrow> bool" where
  "inBounds displayArr i = (0 \<le> i \<and> i < int (length displayArr))"

definition dispAt :: "SEVEN_SEG_DISP \<Rightarrow> SEVEN_SEG_DISP list \<Rightarrow> int \<Rightarrow> SEVEN_SEG_DISP" where
  "dispAt past displayArr i = (if inBounds displayArr i then displayArr ! nat i else past)"

definition setHex :: "SEVEN_SEG_DISP list \<Rightarrow> int \<Rightarrow> u8 \<Rightarrow> SEVEN_SEG_DISP list" where
  "setHex displayArr i v =
    (if inBounds displayArr i then displayArr[nat i := (displayArr ! nat i)\<lparr>hexDigit := v\<rparr>]
     else displayArr)"

definition setDp :: "SEVEN_SEG_DISP list \<Rightarrow> int \<Rightarrow> u8 \<Rightarrow> SEVEN_SEG_DISP list" where
  "setDp displayArr i v =
    (if inBounds displayArr i then displayArr[nat i := (displayArr ! nat i)\<lparr>dp := v\<rparr>]
     else displayArr)"

text \<open>Lines 814-817: the thousands state is detected, not stored.\<close>

definition thousandStateOf :: "SEVEN_SEG_DISP list \<Rightarrow> u8 \<Rightarrow> u8" where
  "thousandStateOf displayArr botRow =
    (if botRow \<noteq> 0
     then (if dp (displayArr ! 6) = 0 \<and> hexDigit (displayArr ! 7) \<noteq> OFF_CODE then 1 else 0)
     else (if dp (displayArr ! 2) = 0 \<and> hexDigit (displayArr ! 3) \<noteq> OFF_CODE then 1 else 0))"

text \<open>Lines 810-819: \<^verbatim>\<open>dispRowIndex\<close> as it stands when line 820 reads \<^verbatim>\<open>displayArr[dispRowIndex]\<close>.\<close>

definition targetIndex :: "SEVEN_SEG_DISP list \<Rightarrow> u8 \<Rightarrow> u8 \<Rightarrow> u8" where
  "targetIndex displayArr digitPos botRow =
    (if botRow \<noteq> 0 then digitPos + 4 else digitPos) + thousandStateOf displayArr botRow"

text \<open>
  The four cases of the \<^verbatim>\<open>switch\<close>. Each takes the array, \<^verbatim>\<open>dispRowIndex\<close> and
  \<^verbatim>\<open>nextHexCode\<close> and returns them as the case leaves them.
\<close>

definition caseHundreds ::
  "SEVEN_SEG_DISP \<Rightarrow> SEVEN_SEG_DISP list \<Rightarrow> u8 \<Rightarrow> u8 \<Rightarrow> u8 \<Rightarrow> u8 \<Rightarrow> SEVEN_SEG_DISP list \<times> u8 \<times> u8" where
  "caseHundreds past arr botRow thousandState dispRowIndex nextHexCode =
    (let i = uint dispRowIndex in
     if nextHexCode > 0x9 \<and> uint nextHexCode - 1 \<noteq> uint OFF_CODE then
       (if botRow = 0 then
          (let arr1 = (if hexDigit (dispAt past arr (i + 1)) = 0x0
                       then setHex arr (i + 1) OFF_CODE else arr)
           in (arr1, dispRowIndex, OFF_CODE))
        else if thousandState = 0 then
          (let arr1 = setHex arr (i + 3) (hexDigit (dispAt past arr (i + 2)));
               arr2 = setHex arr1 (i + 2) (hexDigit (dispAt past arr1 (i + 1)));
               arr3 = setDp arr2 (i + 2) 0;
               arr4 = setHex arr3 (i + 1) 0x0
           in (arr4, dispRowIndex, 0x1))
        else if thousandState \<noteq> 0 \<and> hexDigit (dispAt past arr (i - 1)) = 0x9 then
          (let arr1 = (if hexDigit (dispAt past arr (i + 1)) = 0x0
                       then setHex arr i OFF_CODE
                       else setHex arr i (hexDigit (dispAt past arr (i + 1))));
               arr2 = setHex arr1 (i + 1) (hexDigit (dispAt past arr1 (i + 2)));
               arr3 = setHex arr2 (i + 2) OFF_CODE
           in (arr3, dispRowIndex - 1, OFF_CODE))
        else
          (setHex arr (i - 1) (hexDigit (dispAt past arr (i - 1)) + 1), dispRowIndex, 0x0))
     else
       (let nhc = (if uint nextHexCode - 1 = uint OFF_CODE then 0x1 else nextHexCode);
            arr1 = (if hexDigit (dispAt past arr (i + 1)) = OFF_CODE
                    then setHex arr (i + 1) 0x0 else arr);
            arr2 = (if hexDigit (dispAt past arr1 (i + 2)) = OFF_CODE
                    then setHex arr1 (i + 2) 0x0 else arr1)
        in (arr2, dispRowIndex, nhc)))"

definition caseTens ::
  "SEVEN_SEG_DISP \<Rightarrow> SEVEN_SEG_DISP list \<Rightarrow> u8 \<Rightarrow> u8 \<Rightarrow> SEVEN_SEG_DISP list \<times> u8 \<times> u8" where
  "caseTens past arr dispRowIndex nextHexCode =
    (let i = uint dispRowIndex in
     if uint nextHexCode - 1 = uint OFF_CODE then (arr, dispRowIndex, 0x1)
     else if nextHexCode > 0x9 then
       (if hexDigit (dispAt past arr (i - 1)) = OFF_CODE then (arr, dispRowIndex, OFF_CODE)
        else (arr, dispRowIndex, 0x0))
     else (arr, dispRowIndex, nextHexCode))"

definition caseOnes ::
  "SEVEN_SEG_DISP list \<Rightarrow> u8 \<Rightarrow> u8 \<Rightarrow> SEVEN_SEG_DISP list \<times> u8 \<times> u8" where
  "caseOnes arr dispRowIndex nextHexCode =
    (if nextHexCode > 0x9 then (arr, dispRowIndex, 0x0) else (arr, dispRowIndex, nextHexCode))"

definition leaveThousands :: "SEVEN_SEG_DISP \<Rightarrow> SEVEN_SEG_DISP list \<Rightarrow> int \<Rightarrow> SEVEN_SEG_DISP list" where
  "leaveThousands past arr i =
    (let arr1 = (if hexDigit (dispAt past arr (i - 2)) = 0x0
                 then setHex arr (i - 3) OFF_CODE
                 else setHex arr (i - 3) (hexDigit (dispAt past arr (i - 2))));
         arr2 = (if hexDigit (dispAt past arr1 (i - 1)) = 0x0
                 then (if hexDigit (dispAt past arr1 (i - 3)) = OFF_CODE
                       then setHex arr1 (i - 2) OFF_CODE
                       else setHex arr1 (i - 2) 0x0)
                 else setHex arr1 (i - 2) (hexDigit (dispAt past arr1 (i - 1))))
     in setHex arr2 (i - 1) (hexDigit (dispAt past arr2 i)))"

definition caseTenths ::
  "SEVEN_SEG_DISP \<Rightarrow> SEVEN_SEG_DISP list \<Rightarrow> u8 \<Rightarrow> u8 \<Rightarrow> u8 \<Rightarrow> SEVEN_SEG_DISP list \<times> u8 \<times> u8" where
  "caseTenths past arr thousandState dispRowIndex nextHexCode =
    (let dispRowIndex1 = (if thousandState \<noteq> 0 then dispRowIndex - 1 else dispRowIndex);
         i = uint dispRowIndex1;
         arr1 = (if thousandState \<noteq> 0 then leaveThousands past arr i else arr)
     in if uint nextHexCode - 1 = uint OFF_CODE \<or> thousandState \<noteq> 0 then
          (setDp arr1 (i - 1) 1, dispRowIndex1, 0x1)
        else if nextHexCode > 0x9 then
          (setDp arr1 (i - 1) 0, dispRowIndex1, OFF_CODE)
        else (arr1, dispRowIndex1, nextHexCode))"

text \<open>
  \<^verbatim>\<open>incDispRow\<close>: the returned \<^verbatim>\<open>errorCode\<close>, the bus and the array after the call. The
  \<^verbatim>\<open>switch\<close> has a case for each \<^verbatim>\<open>digitPos\<close> that passes the guard of line 808.
\<close>

definition incDispRow ::
  "SEVEN_SEG_DISP \<Rightarrow> bus \<Rightarrow> SEVEN_SEG_DISP list \<Rightarrow> u8 \<Rightarrow> u8 \<Rightarrow> u8 \<times> bus \<times> SEVEN_SEG_DISP list" where
  "incDispRow past b displayArr digitPos botRow =
    (if digitPos \<le> TENTHS_PLACE then
       (let thousandState = thousandStateOf displayArr botRow;
            dispRowIndex = targetIndex displayArr digitPos botRow;
            nextHexCode = hexDigit (dispAt past displayArr (uint dispRowIndex)) + 1;
            (arr1, dispRowIndex1, nextHexCode1) =
              (if digitPos = HUNDREDS_PLACE
                 then caseHundreds past displayArr botRow thousandState dispRowIndex nextHexCode
               else if digitPos = TENS_PLACE
                 then caseTens past displayArr dispRowIndex nextHexCode
               else if digitPos = ONES_PLACE
                 then caseOnes displayArr dispRowIndex nextHexCode
               else caseTenths past displayArr thousandState dispRowIndex nextHexCode);
            (errorCode, b1, d) =
              writeHexToSevSeg b (dispAt past arr1 (uint dispRowIndex1)) nextHexCode1 dispRowIndex1;
            arr2 = (if inBounds arr1 (uint dispRowIndex1)
                    then arr1[nat (uint dispRowIndex1) := d] else arr1);
            (b2, arr3) = refreshAllDisps b1 arr2
        in (errorCode, b2, arr3))
     else (3, b, displayArr))"

text \<open>What a row shows: the digit and the decimal-point flag of its four displays.\<close>

definition rowView :: "SEVEN_SEG_DISP list \<Rightarrow> u8 \<Rightarrow> (u8 \<times> u8) list" where
  "rowView displayArr botRow =
    map (\<lambda>d. (hexDigit d, dp d)) (take 4 (drop (if botRow \<noteq> 0 then 4 else 0) displayArr))"

section \<open>Matrix keypad module (mtrxKeypad.c)\<close>

text \<open>
  The keypad object of the client, \<^verbatim>\<open>geminiKeypad\<close>, has all its register pointers on
  port 2: \<^verbatim>\<open>ROW_IN\<close> is \<^verbatim>\<open>P2IN\<close>, \<^verbatim>\<open>ROW_OUT\<close> and \<^verbatim>\<open>COL_OUT\<close> are both \<^verbatim>\<open>P2OUT\<close>, \<^verbatim>\<open>ROW_IE\<close>,
  \<^verbatim>\<open>ROW_IES\<close>, \<^verbatim>\<open>ROW_IFG\<close> are \<^verbatim>\<open>P2IE\<close>, \<^verbatim>\<open>P2IES\<close>, \<^verbatim>\<open>P2IFG\<close>. The model keeps the
  registers the scan and the main loop write, the two pin masks, \<^verbatim>\<open>currKeyCoord\<close> and the
  module's private \<^verbatim>\<open>pendingKeyCoord\<close>. \<^verbatim>\<open>P2IN\<close> is an input: what a read returns is given
  by the environment as a function of the number of reads made so far and of the
  value driven on \<^verbatim>\<open>P2OUT\<close>; \<open>reads\<close> counts the reads.
\<close>

record MATRIX_KEYPAD =
  ROW_PINS :: u8
  COL_PINS :: u8
  currKeyCoord :: u8
  pendingKeyCoord :: u8
  P2OUT :: u8
  P2IE :: u8
  P2IES :: u8
  P2IFG :: u8
  reads :: nat

type_synonym row_input = "nat \<Rightarrow> u8 \<Rightarrow> u8"

definition readRowIn :: "row_input \<Rightarrow> MATRIX_KEYPAD \<Rightarrow> u8 \<times> MATRIX_KEYPAD" where
  "readRowIn rowIn k = (rowIn (reads k) (P2OUT k), k\<lparr>reads := Suc (reads k)\<rparr>)"

text \<open>
  \<^verbatim>\<open>scanForKeyPress\<close> (lines 94-139). \<open>scanRows\<close> is the inner loop over \<^verbatim>\<open>rowPinIndex\<close>
  for the column \<^verbatim>\<open>colPinIndex\<close>; it returns whether it left through \<^verbatim>\<open>goto SCAN_FINISH\<close>.
  \<open>scanCols\<close> is the outer loop and returns \<^verbatim>\<open>scanError\<close>.
\<close>

fun scanRows :: "row_input \<Rightarrow> nat \<Rightarrow> nat list \<Rightarrow> MATRIX_KEYPAD \<Rightarrow> bool \<times> MATRIX_KEYPAD" where
  "scanRows rowIn colPinIndex [] k = (False, k)"
| "scanRows rowIn colPinIndex (rowPinIndex # rest) k =
    (let (v, k1) = readRowIn rowIn k in
     if push_bit rowPinIndex BIT0 AND ROW_PINS k1 AND v \<noteq> 0
     then (True, k1\<lparr>pendingKeyCoord := push_bit 4 (of_nat colPinIndex) OR of_nat rowPinIndex,
                    P2IES := P2IES k1 OR ROW_PINS k1\<rparr>)
     else scanRows rowIn colPinIndex rest k1)"

fun scanCols :: "row_input \<Rightarrow> nat list \<Rightarrow> MATRIX_KEYPAD \<Rightarrow> u8 \<times> MATRIX_KEYPAD" where
  "scanCols rowIn [] k = (1, k)"
| "scanCols rowIn (colPinIndex # rest) k =
    (if push_bit colPinIndex BIT0 AND COL_PINS k = 0 then scanCols rowIn rest k
     else
       (let k1 = k\<lparr>P2OUT := P2OUT k AND NOT (COL_PINS k)\<rparr>;
            k2 = k1\<lparr>P2OUT := P2OUT k1 OR push_bit colPinIndex BIT0\<rparr>;
            (v, k3) = readRowIn rowIn k2
        in if v AND ROW_PINS k3 \<noteq> 0
           then (let (found, k4) = scanRows rowIn colPinIndex [0..<8] k3
                 in if found then (0, k4) else scanCols rowIn rest k4)
           else scanCols rowIn rest k3))"

definition scanForKeyPress :: "row_input \<Rightarrow> MATRIX_KEYPAD \<Rightarrow> u8 \<times> MATRIX_KEYPAD" where
  "scanForKeyPress rowIn k =
    (let k0 = k\<lparr>P2IE := P2IE k AND NOT (ROW_PINS k)\<rparr>;
         (scanError, k1) = scanCols rowIn [0..<8] k0;
         k2 = k1\<lparr>P2IFG := P2IFG k1 AND NOT (ROW_PINS k1)\<rparr>;
         k3 = k2\<lparr>P2OUT := P2OUT k2 OR COL_PINS k2\<rparr>;
         k4 = k3\<lparr>P2IE := P2IE k3 OR ROW_PINS k3\<rparr>
     in (scanError, k4))"

text \<open>\<^verbatim>\<open>saveKeyPress\<close> (lines 167-178).\<close>

definition saveKeyPress :: "MATRIX_KEYPAD \<Rightarrow> MATRIX_KEYPAD" where
  "saveKeyPress k =
    (let k0 = k\<lparr>P2IE := P2IE k AND NOT (ROW_PINS k)\<rparr>;
         k1 = k0\<lparr>currKeyCoord := pendingKeyCoord k0\<rparr>;
         k2 = k1\<lparr>P2IES := P2IES k1 AND NOT (ROW_PINS k1)\<rparr>;
         k3 = k2\<lparr>P2IFG := P2IFG k2 AND NOT (ROW_PINS k2)\<rparr>
     in k3\<lparr>P2IE := P2IE k3 OR ROW_PINS k3\<rparr>)"

section \<open>The client (geminiControlClient.c)\<close>

definition LED_CONTROLLER :: u8 where "LED_CONTROLLER = BIT0"
definition LED_PUMP :: u8 where "LED_PUMP = BIT1"
definition LED_CC :: u8 where "LED_CC = BIT2"
definition LED_BLANKBUTTON :: u8 where "LED_BLANKBUTTON = BIT3"
definition LED_MONITOR :: u8 where "LED_MONITOR = BIT4"
definition LED_SECPIGGYBACK :: u8 where "LED_SECPIGGYBACK = BIT5"
definition LED_BATTPWR :: u8 where "LED_BATTPWR = BIT6"
definition LED_PLUGPWR :: u8 where "LED_PLUGPWR = BIT7"

lemmas LED_defs = LED_CONTROLLER_def LED_PUMP_def LED_CC_def LED_BLANKBUTTON_def
  LED_MONITOR_def LED_SECPIGGYBACK_def LED_BATTPWR_def LED_PLUGPWR_def

definition KEYPAD_PWR_BTN :: u8 where "KEYPAD_PWR_BTN = BIT0"

definition FLAG_KEYPAD_PRESS :: u8 where "FLAG_KEYPAD_PRESS = BIT0"
definition FLAG_PWR_OFF :: u8 where "FLAG_PWR_OFF = BIT1"
definition FLAG_RATE_EDIT :: u8 where "FLAG_RATE_EDIT = BIT2"
definition FLAG_VTBI_EDIT :: u8 where "FLAG_VTBI_EDIT = BIT3"
definition FLAG_PUMP_ACTIVE :: u8 where "FLAG_PUMP_ACTIVE = BIT4"
definition FLAG_RATE_VALUE :: u8 where "FLAG_RATE_VALUE = BIT5"
definition FLAG_VTBI_VALUE :: u8 where "FLAG_VTBI_VALUE = BIT6"

lemmas FLAG_defs = FLAG_KEYPAD_PRESS_def FLAG_PWR_OFF_def FLAG_RATE_EDIT_def FLAG_VTBI_EDIT_def
  FLAG_PUMP_ACTIVE_def FLAG_RATE_VALUE_def FLAG_VTBI_VALUE_def

text \<open>\<^verbatim>\<open>enum GEMINI_KEYS\<close> (lines 163-179).\<close>

definition CC_MONITOR :: u8 where "CC_MONITOR = 0x40"
definition PAUSE_STOP_DOWN :: u8 where "PAUSE_STOP_DOWN = 0x60"
definition PAUSE_STOP_ALT :: u8 where "PAUSE_STOP_ALT = 0x41"
definition RATE :: u8 where "RATE = 0x51"
definition VTBI :: u8 where "VTBI = 0x61"
definition START :: u8 where "START = 0x71"
definition HUNDRED :: u8 where "HUNDRED = 0x42"
definition TEN :: u8 where "TEN = 0x52"
definition ONE :: u8 where "ONE = 0x62"
definition TENTH :: u8 where "TENTH = 0x72"
definition CLEAR_SILENCE :: u8 where "CLEAR_SILENCE = 0x43"
definition PC_MODE :: u8 where "PC_MODE = 0x53"
definition SEC_PIGGY_BACK :: u8 where "SEC_PIGGY_BACK = 0x63"
definition VOLUME_INFUSED :: u8 where "VOLUME_INFUSED = 0x73"

lemmas KEY_defs = CC_MONITOR_def PAUSE_STOP_DOWN_def PAUSE_STOP_ALT_def RATE_def VTBI_def
  START_def HUNDRED_def TEN_def ONE_def TENTH_def CLEAR_SILENCE_def PC_MODE_def
  SEC_PIGGY_BACK_def VOLUME_INFUSED_def

text \<open>
  \<^verbatim>\<open>writeToDispRow\<close> (lines 700-724): the loop over \<^verbatim>\<open>dispRowIndex = 0, ..., 3\<close>, left at the
  first nonzero \<^verbatim>\<open>errorCode\<close>. \<open>rowDataArr\<close> is the 4 by 2 buffer, a list of four pairs of
  hex code and decimal-point state, as \<^verbatim>\<open>writeToRowBuff\<close> (lines 1005-1016) fills it.
\<close>

fun writeRowLoop ::
  "bus \<Rightarrow> SEVEN_SEG_DISP list \<Rightarrow> (u8 \<times> u8) list \<Rightarrow> nat \<Rightarrow> nat list \<Rightarrow> u8 \<times> bus \<times> SEVEN_SEG_DISP list" where
  "writeRowLoop b displayArr rowDataArr botRow [] = (0, b, displayArr)"
| "writeRowLoop b displayArr rowDataArr botRow (dispRowIndex # rest) =
    (let arr1 = displayArr[dispRowIndex + botRow :=
                  (displayArr ! (dispRowIndex + botRow))
                    \<lparr>dp := (if snd (rowDataArr ! dispRowIndex) \<noteq> 0 then 1 else 0)\<rparr>];
         (errorCode, b1, d) =
            writeHexToSevSeg b (arr1 ! (dispRowIndex + botRow)) (fst (rowDataArr ! dispRowIndex))
              (of_nat (dispRowIndex + botRow));
         arr2 = arr1[dispRowIndex + botRow := d]
     in if errorCode \<noteq> 0 then (errorCode, b1, arr2)
        else writeRowLoop b1 arr2 rowDataArr botRow rest)"

definition writeToDispRow ::
  "bus \<Rightarrow> SEVEN_SEG_DISP list \<Rightarrow> (u8 \<times> u8) list \<Rightarrow> u8 \<Rightarrow> u8 \<times> bus \<times> SEVEN_SEG_DISP list" where
  "writeToDispRow b displayArr rowDataArr botRow =
    writeRowLoop b displayArr rowDataArr (if botRow \<noteq> 0 then 4 else 0) [0..<4]"

definition writeToRowBuff :: "u8 \<Rightarrow> u8 \<Rightarrow> u8 \<Rightarrow> u8 \<Rightarrow> u8 \<Rightarrow> u8 \<Rightarrow> u8 \<Rightarrow> u8 \<Rightarrow> (u8 \<times> u8) list" where
  "writeToRowBuff dat0 dp0 dat1 dp1 dat2 dp2 dat3 dp3 = [(dat0, dp0), (dat1, dp1), (dat2, dp2), (dat3, dp3)]"

text \<open>\<^verbatim>\<open>flashDispRow\<close> (lines 1042-1068): one pass of the loop, and \<^verbatim>\<open>numFlashes\<close> passes.\<close>

definition flashOnce :: "u8 \<Rightarrow> bus \<times> SEVEN_SEG_DISP list \<Rightarrow> bus \<times> SEVEN_SEG_DISP list" where
  "flashOnce row = (\<lambda>(b, displayArr).
    (let b1 = b\<lparr>P3OUT := P3OUT b OR row\<rparr>;
         b2 = usciXNSpiPutChar b1 0x00;
         b3 = b2\<lparr>P3OUT := P3OUT b2 AND NOT row\<rparr>
     in refreshAllDisps b3 displayArr))"

definition flashDispRow :: "bus \<Rightarrow> SEVEN_SEG_DISP list \<Rightarrow> u8 \<Rightarrow> u8 \<Rightarrow> bus \<times> SEVEN_SEG_DISP list" where
  "flashDispRow b displayArr rowSel numFlashes =
    (let row = (if rowSel = TOP_ROW then TOP_DISPS
                else if rowSel = BOT_ROW then BOT_DISPS else ALL_DISPS)
     in (flashOnce row ^^ unat numFlashes) (b, displayArr))"

text \<open>
  The state of the panel: the globals \<^verbatim>\<open>currSysState\<close>, \<^verbatim>\<open>prevSysState\<close> and \<^verbatim>\<open>geminiKeypad\<close>,
  the locals of \<^verbatim>\<open>main\<close> that live across the loop, the bus, and the registers of the
  power button and of the debounce timer.
\<close>

record panel =
  currSysState :: u8
  prevSysState :: u8
  geminiKeypad :: MATRIX_KEYPAD
  sevSegDispArr :: "SEVEN_SEG_DISP list"
  nextLedSRState :: u8
  currLedSRState :: u8
  spi :: bus
  P1IE :: u8
  P1IFG :: u8
  TA0CCR0 :: "16 word"


text \<open>
  The three LED groups of the \<^verbatim>\<open>switch\<close> in \<^verbatim>\<open>main\<close>: what \<^verbatim>\<open>case CC_MONITOR\<close> (lines
  336-357), \<^verbatim>\<open>case PC_MODE\<close> (lines 488-501) and \<^verbatim>\<open>case VOLUME_INFUSED\<close> (lines 515-528)
  make of \<^verbatim>\<open>nextLedSRState\<close>, given \<^verbatim>\<open>currLedSRState\<close>.
\<close>

definition ledsCC_MONITOR :: "u8 \<Rightarrow> u8 \<Rightarrow> u8" where
  "ledsCC_MONITOR currLed nextLed =
    (if \<not> (((currLed AND LED_CC) XOR (currLed AND LED_BLANKBUTTON)) \<noteq> 0
            \<or> ((currLed AND LED_BLANKBUTTON) XOR (currLed AND LED_MONITOR)) \<noteq> 0
            \<or> ((currLed AND LED_CC) XOR (currLed AND LED_MONITOR)) \<noteq> 0)
     then (nextLed AND NOT (LED_BLANKBUTTON OR LED_MONITOR)) OR LED_CC
     else if currLed AND LED_CC \<noteq> 0 then (nextLed AND NOT LED_CC) OR LED_BLANKBUTTON
     else if currLed AND LED_BLANKBUTTON \<noteq> 0 then (nextLed AND NOT LED_BLANKBUTTON) OR LED_MONITOR
     else if currLed AND LED_MONITOR \<noteq> 0 then nextLed AND NOT LED_MONITOR
     else nextLed)"

definition ledsPC_MODE :: "u8 \<Rightarrow> u8 \<Rightarrow> u8" where
  "ledsPC_MODE currLed nextLed =
    (if \<not> (((currLed AND LED_CONTROLLER) XOR (currLed AND LED_PUMP)) \<noteq> 0)
     then (nextLed AND NOT LED_PUMP) OR LED_CONTROLLER
     else if currLed AND LED_CONTROLLER \<noteq> 0 then (nextLed AND NOT LED_CONTROLLER) OR LED_PUMP
     else if currLed AND LED_PUMP \<noteq> 0 then nextLed AND NOT LED_PUMP
     else nextLed)"

definition ledsVOLUME_INFUSED :: "u8 \<Rightarrow> u8 \<Rightarrow> u8" where
  "ledsVOLUME_INFUSED currLed nextLed =
    (if \<not> (((currLed AND LED_BATTPWR) XOR (currLed AND LED_PLUGPWR)) \<noteq> 0)
     then (nextLed AND NOT LED_PLUGPWR) OR LED_BATTPWR
     else if currLed AND LED_BATTPWR \<noteq> 0 then (nextLed AND NOT LED_BATTPWR) OR LED_PLUGPWR
     else if currLed AND LED_PLUGPWR \<noteq> 0 then nextLed AND NOT LED_PLUGPWR
     else nextLed)"

text \<open>
  Calls of the display functions from \<^verbatim>\<open>main\<close>, which ignores their error codes, and the
  write of the LED shift register (\<^verbatim>\<open>SEL_LEDSR\<close>, \<^verbatim>\<open>usciXNSpiPutChar\<close>, \<^verbatim>\<open>DSEL_LEDSR\<close>).
\<close>

definition doFlash :: "u8 \<Rightarrow> u8 \<Rightarrow> panel \<Rightarrow> panel" where
  "doFlash rowSel numFlashes s =
    (let (b, arr) = flashDispRow (spi s) (sevSegDispArr s) rowSel numFlashes
     in s\<lparr>spi := b, sevSegDispArr := arr\<rparr>)"

definition doWriteRow :: "(u8 \<times> u8) list \<Rightarrow> u8 \<Rightarrow> panel \<Rightarrow> panel" where
  "doWriteRow rowDataBuff botRow s =
    (let (errorCode, b, arr) = writeToDispRow (spi s) (sevSegDispArr s) rowDataBuff botRow
     in s\<lparr>spi := b, sevSegDispArr := arr\<rparr>)"

definition doInc :: "SEVEN_SEG_DISP \<Rightarrow> u8 \<Rightarrow> u8 \<Rightarrow> panel \<Rightarrow> panel" where
  "doInc past digitPos botRow s =
    (let (errorCode, b, arr) = incDispRow past (spi s) (sevSegDispArr s) digitPos botRow
     in s\<lparr>spi := b, sevSegDispArr := arr\<rparr>)"

definition writeLeds :: "bus \<Rightarrow> u8 \<Rightarrow> bus" where
  "writeLeds b leds =
    (let b1 = b\<lparr>P1OUT := P1OUT b OR LEDSR\<rparr>;
         b2 = usciXNSpiPutChar b1 leds
     in b2\<lparr>P1OUT := P1OUT b2 AND NOT LEDSR\<rparr>)"

definition keypadIntsOff :: "panel \<Rightarrow> panel" where
  "keypadIntsOff s =
    s\<lparr>geminiKeypad := (geminiKeypad s)
        \<lparr>P2IE := P2IE (geminiKeypad s) AND NOT (ROW_PINS (geminiKeypad s))\<rparr>\<rparr>"

text \<open>\<^verbatim>\<open>enableKeypad\<close> (lines 1149-1154), also the last two lines of \<^verbatim>\<open>case RATE\<close> and \<^verbatim>\<open>case VTBI\<close>.\<close>

definition enableKeypad :: "panel \<Rightarrow> panel" where
  "enableKeypad s =
    (let k = geminiKeypad s;
         k1 = k\<lparr>P2IFG := P2IFG k AND NOT (ROW_PINS k)\<rparr>
     in s\<lparr>geminiKeypad := k1\<lparr>P2IE := P2IE k1 OR ROW_PINS k1\<rparr>\<rparr>)"

definition blankBuff :: "(u8 \<times> u8) list" where
  "blankBuff = writeToRowBuff OFF_CODE 0 OFF_CODE 0 0x0 0 OFF_CODE 0"

definition dashBuff :: "(u8 \<times> u8) list" where
  "dashBuff = writeToRowBuff DASH_CODE 0 DASH_CODE 0 DASH_CODE 0 DASH_CODE 0"

text \<open>\<^verbatim>\<open>case RATE\<close> (lines 368-393) and \<^verbatim>\<open>case VTBI\<close> (lines 395-420), inside their guards.\<close>

definition caseRATE :: "panel \<Rightarrow> panel" where
  "caseRATE s =
    (let s1 = keypadIntsOff s;
         s2 = s1\<lparr>currSysState := currSysState s1 AND NOT FLAG_VTBI_EDIT\<rparr>;
         s3 = s2\<lparr>currSysState := currSysState s2 XOR FLAG_RATE_EDIT\<rparr>;
         s4 = (if currSysState s3 AND FLAG_RATE_EDIT \<noteq> 0
               then (let s5 = (if currSysState s3 AND FLAG_RATE_VALUE = 0
                               then (let s6 = doWriteRow blankBuff TOP_ROW s3
                                     in s6\<lparr>currSysState := currSysState s6 OR FLAG_RATE_VALUE\<rparr>)
                               else s3)
                     in doFlash TOP_ROW 2 s5)
               else doFlash TOP_ROW 1 s3)
     in enableKeypad s4)"

definition caseVTBI :: "panel \<Rightarrow> panel" where
  "caseVTBI s =
    (let s1 = keypadIntsOff s;
         s2 = s1\<lparr>currSysState := currSysState s1 AND NOT FLAG_RATE_EDIT\<rparr>;
         s3 = s2\<lparr>currSysState := currSysState s2 XOR FLAG_VTBI_EDIT\<rparr>;
         s4 = (if currSysState s3 AND FLAG_VTBI_EDIT \<noteq> 0
               then (let s5 = (if currSysState s3 AND FLAG_VTBI_VALUE = 0
                               then (let s6 = doWriteRow blankBuff BOT_ROW s3
                                     in s6\<lparr>currSysState := currSysState s6 OR FLAG_VTBI_VALUE\<rparr>)
                               else s3)
                     in doFlash BOT_ROW 2 s5)
               else doFlash BOT_ROW 1 s3)
     in enableKeypad s4)"

text \<open>\<^verbatim>\<open>case CLEAR_SILENCE\<close> (lines 456-483), inside its guard.\<close>

definition caseCLEAR_SILENCE :: "panel \<Rightarrow> panel" where
  "caseCLEAR_SILENCE s =
    (if currSysState s AND FLAG_RATE_EDIT \<noteq> 0 then doWriteRow blankBuff TOP_ROW s
     else if currSysState s AND FLAG_VTBI_EDIT \<noteq> 0 then doWriteRow blankBuff BOT_ROW s
     else (let s1 = doWriteRow dashBuff TOP_ROW s;
               s2 = doWriteRow dashBuff BOT_ROW s1;
               s3 = s2\<lparr>currSysState := currSysState s2 AND NOT (FLAG_RATE_VALUE OR FLAG_VTBI_VALUE)\<rparr>
           in s3\<lparr>nextLedSRState := LED_PUMP OR LED_CC OR LED_PLUGPWR\<rparr>))"

text \<open>The four number keys (lines 428-454).\<close>

definition caseNumber :: "SEVEN_SEG_DISP \<Rightarrow> u8 \<Rightarrow> panel \<Rightarrow> panel" where
  "caseNumber past digitPos s =
    (if currSysState s AND FLAG_RATE_EDIT \<noteq> 0 then doInc past digitPos TOP_ROW s
     else if currSysState s AND FLAG_VTBI_EDIT \<noteq> 0 then doInc past digitPos BOT_ROW s
     else s)"

text \<open>
  The \<^verbatim>\<open>switch (geminiKeypad.currKeyCoord)\<close> (lines 331-531). A coordinate without a
  \<^verbatim>\<open>case\<close> does nothing.
\<close>

definition keyAction :: "SEVEN_SEG_DISP \<Rightarrow> panel \<Rightarrow> panel" where
  "keyAction past s =
    (let key = currKeyCoord (geminiKeypad s);
         idle = (currSysState s AND FLAG_PUMP_ACTIVE = 0)
     in
     if key = CC_MONITOR then
       (if idle
        then s\<lparr>nextLedSRState := ledsCC_MONITOR (currLedSRState s) (nextLedSRState s)\<rparr> else s)
     else if key = PAUSE_STOP_DOWN \<or> key = PAUSE_STOP_ALT then
       (let s1 = s\<lparr>currSysState := currSysState s AND NOT (FLAG_RATE_EDIT OR FLAG_VTBI_EDIT)\<rparr>;
            s2 = s1\<lparr>currSysState := currSysState s1 AND NOT FLAG_PUMP_ACTIVE\<rparr>
        in doFlash ALL_ROWS 1 s2)
     else if key = RATE then (if idle then caseRATE s else s)
     else if key = VTBI then (if idle then caseVTBI s else s)
     else if key = START then
       (let s1 = s\<lparr>currSysState := currSysState s AND NOT (FLAG_RATE_EDIT OR FLAG_VTBI_EDIT)\<rparr>;
            s2 = s1\<lparr>currSysState := currSysState s1 OR FLAG_PUMP_ACTIVE\<rparr>
        in doFlash ALL_ROWS 2 s2)
     else if key = HUNDRED then caseNumber past HUNDREDS_PLACE s
     else if key = TEN then caseNumber past TENS_PLACE s
     else if key = ONE then caseNumber past ONES_PLACE s
     else if key = TENTH then caseNumber past TENTHS_PLACE s
     else if key = CLEAR_SILENCE then (if idle then caseCLEAR_SILENCE s else s)
     else if key = PC_MODE then
       (if idle
        then s\<lparr>nextLedSRState := ledsPC_MODE (currLedSRState s) (nextLedSRState s)\<rparr> else s)
     else if key = SEC_PIGGY_BACK then
       (if idle then s\<lparr>nextLedSRState := nextLedSRState s XOR LED_SECPIGGYBACK\<rparr> else s)
     else if key = VOLUME_INFUSED then
       (if idle
        then s\<lparr>nextLedSRState := ledsVOLUME_INFUSED (currLedSRState s) (nextLedSRState s)\<rparr> else s)
     else s)"

text \<open>
  The keypad branch of the main loop (lines 305-546), run with no interrupt arriving in
  between: the press branch (scan), the release branch (save and act), and the write of
  the LED register when the wanted pattern differs from the committed one.
\<close>

definition pressBranch :: "row_input \<Rightarrow> panel \<Rightarrow> panel" where
  "pressBranch rowIn s =
    (let (invalidKeyPress, k) = scanForKeyPress rowIn (geminiKeypad s);
         s0 = s\<lparr>geminiKeypad := k\<rparr>
     in if invalidKeyPress \<noteq> 0
        then (let s1 = s0\<lparr>currSysState := currSysState s0 AND NOT FLAG_KEYPAD_PRESS\<rparr>
              in s1\<lparr>prevSysState := prevSysState s1 AND NOT FLAG_KEYPAD_PRESS\<rparr>)
        else s0\<lparr>prevSysState := prevSysState s0 OR FLAG_KEYPAD_PRESS\<rparr>)"

definition releaseBranch :: "SEVEN_SEG_DISP \<Rightarrow> panel \<Rightarrow> panel" where
  "releaseBranch past s =
    (let s0 = s\<lparr>geminiKeypad := saveKeyPress (geminiKeypad s)\<rparr>;
         s1 = keyAction past s0
     in s1\<lparr>prevSysState := prevSysState s1 AND NOT FLAG_KEYPAD_PRESS\<rparr>)"

definition keypadEvent :: "row_input \<Rightarrow> SEVEN_SEG_DISP \<Rightarrow> panel \<Rightarrow> panel" where
  "keypadEvent rowIn past s =
    (if (currSysState s XOR prevSysState s) AND FLAG_KEYPAD_PRESS \<noteq> 0 then
       (let s1 = (if currSysState s AND FLAG_KEYPAD_PRESS \<noteq> 0 then pressBranch rowIn s
                  else releaseBranch past s)
        in if nextLedSRState s1 XOR currLedSRState s1 \<noteq> 0
           then s1\<lparr>spi := writeLeds (spi s1) (nextLedSRState s1),
                   currLedSRState := nextLedSRState s1\<rparr>
           else s1)
     else s)"

text \<open>
  The power branch of the main loop (lines 549-586). The loop
  \<^verbatim>\<open>while(!(KEYPAD_PWR_IN & KEYPAD_PWR_BTN));\<close> reads the input \<^verbatim>\<open>P1IN\<close> until the button
  bit is high; the successive values of \<^verbatim>\<open>P1IN\<close> are given as a list, and the loop has
  ended within them when one of them has the bit set. The branch returns \<open>None\<close> when
  the loop has not ended.
\<close>

primrec waitForRelease :: "u8 list \<Rightarrow> bool" where
  "waitForRelease [] = False"
| "waitForRelease (r # rs) = (if r AND KEYPAD_PWR_BTN \<noteq> 0 then True else waitForRelease rs)"

definition powerBranch :: "panel \<Rightarrow> panel" where
  "powerBranch s =
    (let s1 = (if currSysState s AND FLAG_PWR_OFF \<noteq> 0 then
                 (let s2 = s\<lparr>currSysState := currSysState s
                              AND NOT (FLAG_RATE_EDIT OR FLAG_VTBI_EDIT OR FLAG_PUMP_ACTIVE)\<rparr>;
                      b = spi s2;
                      b1 = b\<lparr>P3OUT := P3OUT b OR ALL_DISPS\<rparr>;
                      b2 = usciXNSpiPutChar b1 0x00;
                      b3 = b2\<lparr>P3OUT := P3OUT b2 AND NOT ALL_DISPS\<rparr>
                  in s2\<lparr>spi := writeLeds b3 LED_PLUGPWR\<rparr>)
               else
                 (let (b, arr) = refreshAllDisps (spi s) (sevSegDispArr s);
                      s2 = s\<lparr>spi := writeLeds b (currLedSRState s), sevSegDispArr := arr\<rparr>
                  in enableKeypad s2));
         s3 = s1\<lparr>prevSysState := prevSysState s1 XOR
                  ((prevSysState s1 XOR currSysState s1) AND FLAG_PWR_OFF)\<rparr>;
         s4 = s3\<lparr>P1IFG := P1IFG s3 AND NOT KEYPAD_PWR_BTN\<rparr>
     in s4\<lparr>P1IE := P1IE s4 OR KEYPAD_PWR_BTN\<rparr>)"

definition powerEvent :: "u8 list \<Rightarrow> panel \<Rightarrow> panel option" where
  "powerEvent p1in s =
    (if (currSysState s XOR prevSysState s) AND FLAG_PWR_OFF \<noteq> 0
     then (if waitForRelease p1in then Some (powerBranch s) else None)
     else Some s)"

text \<open>One pass of the main loop (lines 302-587).\<close>

definition mainLoopPass :: "row_input \<Rightarrow> SEVEN_SEG_DISP \<Rightarrow> u8 list \<Rightarrow> panel \<Rightarrow> panel option" where
  "mainLoopPass rowIn past p1in s = powerEvent p1in (keypadEvent rowIn past s)"

text \<open>\<^verbatim>\<open>disableKeypad\<close> (lines 1138-1146) and \<^verbatim>\<open>pwrbtnPressISR\<close> (lines 1208-1225).\<close>

definition disableKeypad :: "panel \<Rightarrow> panel" where
  "disableKeypad s =
    (let s1 = s\<lparr>TA0CCR0 := 0\<rparr>;
         s2 = s1\<lparr>prevSysState := prevSysState s1 AND NOT FLAG_KEYPAD_PRESS\<rparr>;
         s3 = s2\<lparr>currSysState := currSysState s2 AND NOT FLAG_KEYPAD_PRESS\<rparr>;
         k = geminiKeypad s3;
         k1 = k\<lparr>P2IE := P2IE k AND NOT (ROW_PINS k)\<rparr>;
         k2 = k1\<lparr>P2IES := P2IES k1 AND NOT (ROW_PINS k1)\<rparr>;
         k3 = k2\<lparr>P2IFG := P2IFG k2 AND NOT (ROW_PINS k2)\<rparr>
     in s3\<lparr>geminiKeypad := k3\<rparr>)"

definition pwrbtnPressISR :: "panel \<Rightarrow> panel" where
  "pwrbtnPressISR s =
    (if P1IFG s AND KEYPAD_PWR_BTN \<noteq> 0 then
       (let s1 = disableKeypad s;
            s2 = s1\<lparr>currSysState := currSysState s1 XOR FLAG_PWR_OFF\<rparr>;
            s3 = s2\<lparr>P1IE := P1IE s2 AND NOT KEYPAD_PWR_BTN\<rparr>
        in s3\<lparr>P1IFG := P1IFG s3 AND NOT KEYPAD_PWR_BTN\<rparr>)
     else
       (let s1 = s\<lparr>P1IE := P1IE s AND KEYPAD_PWR_BTN\<rparr>
        in s1\<lparr>P1IFG := P1IFG s1 AND KEYPAD_PWR_BTN\<rparr>))"


section \<open>Auxiliary notions for the properties\<close>

text \<open>
  A display object as \<^verbatim>\<open>main\<close> initialises one (lines 272-274) on an active-high display:
  digit and decimal point stored, converted by \<^verbatim>\<open>hexToSevSeg\<close>, pattern committed.
\<close>

definition shownDisp :: "u8 \<Rightarrow> u8 \<Rightarrow> SEVEN_SEG_DISP" where
  "shownDisp h p = commit (snd (hexToSevSeg
     \<lparr>activeLow = 0, hexDigit = h, dp = p, nextBinSegCode = 0x0, currBinSegCode = 0x0\<rparr>))"

definition idleBus :: bus where
  "idleBus = \<lparr>P3OUT = 0, P1OUT = 0, sent = []\<rparr>"

text \<open>Example rows: the blank row \<^verbatim>\<open>[][]0[]\<close>, the row \<^verbatim>\<open>1 0 0 0\<close> and the row \<^verbatim>\<open>9 0 2. 3\<close>.\<close>

definition blankRow :: "SEVEN_SEG_DISP list" where
  "blankRow = [shownDisp OFF_CODE 0, shownDisp OFF_CODE 0, shownDisp 0x0 0, shownDisp OFF_CODE 0]"

definition row1000 :: "SEVEN_SEG_DISP list" where
  "row1000 = [shownDisp 0x1 0, shownDisp 0x0 0, shownDisp 0x0 0, shownDisp 0x0 0]"

definition row9023 :: "SEVEN_SEG_DISP list" where
  "row9023 = [shownDisp 0x9 0, shownDisp 0x0 0, shownDisp 0x2 1, shownDisp 0x3 0]"

text \<open>The fields of the displays that the conversion never writes.\<close>

definition digitsOf :: "SEVEN_SEG_DISP list \<Rightarrow> (u8 \<times> u8 \<times> u8) list" where
  "digitsOf arr = map (\<lambda>d. (hexDigit d, dp d, activeLow d)) arr"

text \<open>
  One press of the ones button on a row whose displays are \<open>arr\<close>: the call
  \<^verbatim>\<open>incDispRow(.., ONES_PLACE, botRow)\<close> of \<^verbatim>\<open>case ONE\<close> in \<^verbatim>\<open>main\<close>, keeping the bus and
  the array. \<open>nextDigit\<close> is what lines 820 and 887-888 compute from the digit shown.
\<close>

definition onesPress ::
  "SEVEN_SEG_DISP \<Rightarrow> u8 \<Rightarrow> bus \<times> SEVEN_SEG_DISP list \<Rightarrow> bus \<times> SEVEN_SEG_DISP list" where
  "onesPress past botRow = (\<lambda>(b, arr). snd (incDispRow past b arr ONES_PLACE botRow))"

definition nextDigit :: "u8 \<Rightarrow> u8" where
  "nextDigit h = (if h + 1 > 0x9 then 0x0 else h + 1)"

text \<open>
  An example state of the panel: switched on and idle, the keypad object as
  \<^verbatim>\<open>mtrxKeypadInit\<close> leaves it with the masks of line 225 (rows on \<^verbatim>\<open>P2.0\<close> to \<^verbatim>\<open>P2.3\<close>,
  columns on \<^verbatim>\<open>P2.4\<close> to \<^verbatim>\<open>P2.7\<close>), the LEDs as \<^verbatim>\<open>main\<close> initialises them, the top row
  showing \<^verbatim>\<open>9 0 2. 3\<close>.
\<close>

definition exampleKeypad :: MATRIX_KEYPAD where
  "exampleKeypad = \<lparr>ROW_PINS = 0x0F, COL_PINS = 0xF0, currKeyCoord = 0x00, pendingKeyCoord = 0x00,
     P2OUT = 0xF0, P2IE = 0x0F, P2IES = 0x00, P2IFG = 0x00, reads = 0\<rparr>"

definition examplePanel :: panel where
  "examplePanel = \<lparr>currSysState = 0x00, prevSysState = 0x00, geminiKeypad = exampleKeypad,
     sevSegDispArr = row9023 @ blankRow,
     nextLedSRState = LED_PUMP OR LED_CC OR LED_PLUGPWR,
     currLedSRState = LED_PUMP OR LED_CC OR LED_PLUGPWR,
     spi = idleBus, P1IE = KEYPAD_PWR_BTN, P1IFG = 0x00, TA0CCR0 = 0\<rparr>"

text \<open>
  The example panel at the moment the main loop sees the release of the key with
  coordinate \<open>key\<close>, the LED register holding \<open>leds\<close>: the scan has stored the coordinate
  and set \<^verbatim>\<open>FLAG_KEYPAD_PRESS\<close> in \<^verbatim>\<open>prevSysState\<close>, the timer routine has cleared it in
  \<^verbatim>\<open>currSysState\<close>.
\<close>

definition releasePending :: "u8 \<Rightarrow> u8 \<Rightarrow> panel" where
  "releasePending key leds = examplePanel
     \<lparr>prevSysState := FLAG_KEYPAD_PRESS,
      geminiKeypad := exampleKeypad\<lparr>pendingKeyCoord := key, P2IES := 0x0F, P2IE := 0x00\<rparr>,
      nextLedSRState := leds, currLedSRState := leds\<rparr>"

text \<open>The power-button edge as the hardware flags it before \<^verbatim>\<open>pwrbtnPressISR\<close> runs.\<close>

definition pwrBtnEdge :: "panel \<Rightarrow> panel" where
  "pwrBtnEdge s = s\<lparr>P1IFG := P1IFG s OR KEYPAD_PWR_BTN\<rparr>"

text \<open>
  A display in its steady state: the committed pattern and the pending pattern are the
  conversion of its digit and decimal point.
\<close>

definition steady :: "SEVEN_SEG_DISP \<Rightarrow> bool" where
  "steady d = (snd (hexToSevSeg d) = d \<and> currBinSegCode d = nextBinSegCode d)"

text \<open>
  What the bus transcript records for \<^verbatim>\<open>refreshAllDisps\<close> when no display is selected at
  its start: for each display its chip select alone, \<^verbatim>\<open>P1OUT\<close> as it stands, and the
  pattern converted from the display's digit and decimal point.
\<close>

definition refreshFrames :: "u8 \<Rightarrow> SEVEN_SEG_DISP list \<Rightarrow> (u8 \<times> u8 \<times> u8) list" where
  "refreshFrames p1out arr =
     map (\<lambda>i. (push_bit i DISP0, p1out, nextBinSegCode (snd (hexToSevSeg (arr ! i)))))
       [0..<NUM_DISPS]"

text \<open>The example panel after the power-button interrupt: the request to switch off.\<close>

definition offRequested :: panel where
  "offRequested = pwrbtnPressISR (pwrBtnEdge examplePanel)"


section \<open>The segment codec round trip\<close>

lemma u8_le_16_cases:
  fixes h :: u8
  assumes "h \<le> 0x10"
  shows "h = 0 \<or> h = 1 \<or> h = 2 \<or> h = 3 \<or> h = 4 \<or> h = 5 \<or> h = 6 \<or> h = 7 \<or> h = 8
    \<or> h = 9 \<or> h = 10 \<or> h = 11 \<or> h = 12 \<or> h = 13 \<or> h = 14 \<or> h = 15 \<or> h = 16"
proof -
  from assms have "unat h \<le> 16" by (simp add: word_le_nat_alt)
  then have "unat h = 0 \<or> unat h = 1 \<or> unat h = 2 \<or> unat h = 3 \<or> unat h = 4 \<or> unat h = 5
    \<or> unat h = 6 \<or> unat h = 7 \<or> unat h = 8 \<or> unat h = 9 \<or> unat h = 10 \<or> unat h = 11
    \<or> unat h = 12 \<or> unat h = 13 \<or> unat h = 14 \<or> unat h = 15 \<or> unat h = 16" by arith
  then show ?thesis by (elim disjE) (simp_all add: word_unat_eq_iff)
qed

text \<open>
  On an active-high display the digits \<^verbatim>\<open>0x0\<close> to \<^verbatim>\<open>0xF\<close> and \<^verbatim>\<open>OFF_CODE\<close> survive the
  round trip; the decimal point comes back as 0 or 1.
\<close>

lemma codec_round_trip_active_high:
  assumes al: "activeLow d = 0" and le: "hexDigit d \<le> 0x10"
  shows "fst (encodeThenDecode d) = 0 \<and> hexDigit (snd (encodeThenDecode d)) = hexDigit d \<and>
    dp (snd (encodeThenDecode d)) = (if dp d \<noteq> 0 then 1 else 0)"
proof -
  from le have c: "hexDigit d = 0 \<or> hexDigit d = 1 \<or> hexDigit d = 2 \<or> hexDigit d = 3
    \<or> hexDigit d = 4 \<or> hexDigit d = 5 \<or> hexDigit d = 6 \<or> hexDigit d = 7 \<or> hexDigit d = 8
    \<or> hexDigit d = 9 \<or> hexDigit d = 10 \<or> hexDigit d = 11 \<or> hexDigit d = 12
    \<or> hexDigit d = 13 \<or> hexDigit d = 14 \<or> hexDigit d = 15 \<or> hexDigit d = 16"
    by (rule u8_le_16_cases)
  show ?thesis using c al
    by (elim disjE)
       (simp_all add: encodeThenDecode_def SevSegToHex_def hexToSevSeg_def commit_def
          segCodeTable_def DASH_CODE_def OFF_CODE_def BIT_defs Let_def)
qed

text \<open>
  On an active-low display \<^verbatim>\<open>SevSegToHex\<close> never succeeds: the complement of the masked
  code has bit 7 set, and no \<^verbatim>\<open>case\<close> label has.
\<close>

lemma not_masked_bit7: "bit (NOT (x AND (0x7F::u8))) 7"
  by (simp add: bit_simps)

lemma SevSegToHex_activeLow_fails:
  assumes a: "activeLow d \<noteq> 0"
  shows "fst (SevSegToHex d) = 1"
proof -
  define c where "c = NOT (currBinSegCode d AND 0x7F)"
  have "bit c 7" unfolding c_def by (rule not_masked_bit7)
  then have "c \<noteq> 0x3F" "c \<noteq> 0x06" "c \<noteq> 0x5B" "c \<noteq> 0x4F" "c \<noteq> 0x66" "c \<noteq> 0x6D"
     "c \<noteq> 0x7D" "c \<noteq> 0x07" "c \<noteq> 0x7F" "c \<noteq> 0x6F" "c \<noteq> 0x77" "c \<noteq> 0x7C" "c \<noteq> 0x39"
     "c \<noteq> 0x5E" "c \<noteq> 0x79" "c \<noteq> 0x71" "c \<noteq> 0" "c \<noteq> 0x40"
    by auto
  then show ?thesis using a unfolding SevSegToHex_def Let_def c_def [symmetric] by simp
qed

text \<open>
  C1. The claim: for every digit \<^verbatim>\<open>0x0\<close> to \<^verbatim>\<open>0xF\<close>, \<^verbatim>\<open>OFF\<close> and \<^verbatim>\<open>DASH\<close>, every decimal-point
  flag and both polarities, encoding with \<^verbatim>\<open>hexToSevSeg\<close> and decoding with \<^verbatim>\<open>SevSegToHex\<close>
  returns 0 and recovers the digit and the flag. The code does not do this: for the
  dash on an active-high display the decoder returns 1 (the \<^verbatim>\<open>case 0x40\<close> falls through
  into \<^verbatim>\<open>default\<close>), and for the digit 3 on an active-low display it returns 1 as well.
\<close>

theorem codec_round_trip_fails:
  "encodeThenDecode \<lparr>activeLow = 0, hexDigit = DASH_CODE, dp = 0, nextBinSegCode = 0, currBinSegCode = 0\<rparr>
     = (1, \<lparr>activeLow = 0, hexDigit = DASH_CODE, dp = 0, nextBinSegCode = 0x40, currBinSegCode = 0x40\<rparr>)
   \<and> encodeThenDecode \<lparr>activeLow = 1, hexDigit = 0x3, dp = 0, nextBinSegCode = 0, currBinSegCode = 0\<rparr>
     = (1, \<lparr>activeLow = 1, hexDigit = 0x3, dp = 0, nextBinSegCode = 0xB0, currBinSegCode = 0xB0\<rparr>)"
  by (simp add: encodeThenDecode_def SevSegToHex_def hexToSevSeg_def commit_def segCodeTable_def
      DASH_CODE_def OFF_CODE_def BIT_defs Let_def)

section \<open>The display consistency guard\<close>

text \<open>
  C3. The claim: every completed \<^verbatim>\<open>writeHexToSevSeg\<close>, its error returns included, leaves
  \<^verbatim>\<open>nextBinSegCode = currBinSegCode\<close>. The code does not: a display in step showing 0 that
  is given the invalid digit \<^verbatim>\<open>0x12\<close> returns 1 with the pending pattern recomputed
  (\<^verbatim>\<open>0x00\<close>) and the committed pattern left at \<^verbatim>\<open>0x3F\<close>; nothing is transmitted.
\<close>

theorem writeHexToSevSeg_invalid_digit_desynchronises:
  "writeHexToSevSeg \<lparr>P3OUT = 0, P1OUT = 0, sent = []\<rparr>
     \<lparr>activeLow = 0, hexDigit = 0x0, dp = 0, nextBinSegCode = 0x3F, currBinSegCode = 0x3F\<rparr> 0x12 0
   = (1, \<lparr>P3OUT = 0, P1OUT = 0, sent = []\<rparr>,
      \<lparr>activeLow = 0, hexDigit = 0x12, dp = 0, nextBinSegCode = 0x00, currBinSegCode = 0x3F\<rparr>)"
  by (simp add: writeHexToSevSeg_def hexToSevSeg_def Let_def BIT_defs)

text \<open>
  C4. A display whose committed pattern differs from its pending pattern: \<^verbatim>\<open>writeHexToSevSeg\<close>
  returns 2, the bus (chip selects and transcript) is as before, so nothing was
  transmitted, and the display object is unchanged in every field.
\<close>

theorem writeHexToSevSeg_out_of_sync:
  assumes "currBinSegCode display \<noteq> nextBinSegCode display"
  shows "writeHexToSevSeg b display hexCode csPortIndex = (2, b, display)"
  using assms by (simp add: writeHexToSevSeg_def)

theorem writeHexToSevSeg_out_of_sync_witness:
  "currBinSegCode \<lparr>activeLow = 0, hexDigit = 0x0, dp = 0, nextBinSegCode = 0x06, currBinSegCode = 0x3F\<rparr>
     \<noteq> nextBinSegCode \<lparr>activeLow = 0, hexDigit = 0x0, dp = 0, nextBinSegCode = 0x06, currBinSegCode = 0x3F\<rparr>
   \<and> writeHexToSevSeg \<lparr>P3OUT = 0, P1OUT = 0, sent = []\<rparr>
       \<lparr>activeLow = 0, hexDigit = 0x0, dp = 0, nextBinSegCode = 0x06, currBinSegCode = 0x3F\<rparr> 0x1 0
     = (2, \<lparr>P3OUT = 0, P1OUT = 0, sent = []\<rparr>,
        \<lparr>activeLow = 0, hexDigit = 0x0, dp = 0, nextBinSegCode = 0x06, currBinSegCode = 0x3F\<rparr>)"
  using writeHexToSevSeg_out_of_sync
    [of "\<lparr>activeLow = 0, hexDigit = 0x0, dp = 0, nextBinSegCode = 0x06, currBinSegCode = 0x3F\<rparr>"
        "\<lparr>P3OUT = 0, P1OUT = 0, sent = []\<rparr>" "0x1" "0"]
  by simp


section \<open>Refreshing the displays\<close>

lemma hexToSevSeg_keeps:
  "hexDigit (snd (hexToSevSeg d)) = hexDigit d"
  "dp (snd (hexToSevSeg d)) = dp d"
  "activeLow (snd (hexToSevSeg d)) = activeLow d"
  "currBinSegCode (snd (hexToSevSeg d)) = currBinSegCode d"
  by (simp_all add: hexToSevSeg_def Let_def)

lemma fst_hexToSevSeg: "fst (hexToSevSeg d) = (if hexDigit d < 0x12 then 0 else 1)"
  by (simp add: hexToSevSeg_def Let_def)

lemma length8E:
  assumes "length (xs :: 'a list) = 8"
  obtains a0 a1 a2 a3 a4 a5 a6 a7 where "xs = [a0, a1, a2, a3, a4, a5, a6, a7]"
proof -
  from assms have "length xs = Suc (Suc (Suc (Suc (Suc (Suc (Suc (Suc 0)))))))" by simp
  then have "\<exists>a0 a1 a2 a3 a4 a5 a6 a7. xs = [a0, a1, a2, a3, a4, a5, a6, a7]"
    by (clarsimp simp: length_Suc_conv)
  then show ?thesis using that by blast
qed

text \<open>
  On the array of eight displays \<^verbatim>\<open>refreshAllDisps\<close> converts and commits every display
  object; digit, decimal point and polarity of each stay as they are.
\<close>

lemma upt_0_8: "[0..<8] = [0, 1, 2, 3, 4, 5, 6, 7::nat]"
  by code_simp

lemma refreshAllDisps_eight:
  "snd (refreshAllDisps b [a0, a1, a2, a3, a4, a5, a6, a7])
     = map (\<lambda>d. commit (snd (hexToSevSeg d))) [a0, a1, a2, a3, a4, a5, a6, a7]"
  by (simp add: refreshAllDisps_def NUM_DISPS_def upt_0_8 refreshDisp_def Let_def commit_def)

lemma snd_refreshAllDisps:
  assumes "length arr = 8"
  shows "snd (refreshAllDisps b arr) = map (\<lambda>d. commit (snd (hexToSevSeg d))) arr"
proof -
  from assms obtain a0 a1 a2 a3 a4 a5 a6 a7 where arr: "arr = [a0, a1, a2, a3, a4, a5, a6, a7]"
    by (rule length8E)
  show ?thesis unfolding arr by (rule refreshAllDisps_eight)
qed

lemma commit_keeps:
  "hexDigit (commit d) = hexDigit d" "dp (commit d) = dp d" "activeLow (commit d) = activeLow d"
  "currBinSegCode (commit d) = nextBinSegCode d" "nextBinSegCode (commit d) = nextBinSegCode d"
  by (simp_all add: commit_def)

lemma digitsOf_refreshAllDisps:
  "length arr = 8 \<Longrightarrow> digitsOf (snd (refreshAllDisps b arr)) = digitsOf arr"
  by (simp add: snd_refreshAllDisps digitsOf_def commit_keeps hexToSevSeg_keeps)


lemma nth_refreshAllDisps:
  assumes "length arr = 8" "i < 8"
  shows "hexDigit (snd (refreshAllDisps b arr) ! i) = hexDigit (arr ! i)"
    and "dp (snd (refreshAllDisps b arr) ! i) = dp (arr ! i)"
    and "activeLow (snd (refreshAllDisps b arr) ! i) = activeLow (arr ! i)"
    and "currBinSegCode (snd (refreshAllDisps b arr) ! i) = nextBinSegCode (snd (refreshAllDisps b arr) ! i)"
  using assms by (simp_all add: snd_refreshAllDisps commit_keeps hexToSevSeg_keeps)

lemma rowView_digitsOf:
  assumes e: "digitsOf a = digitsOf b"
  shows "rowView a r = rowView b r"
proof -
  have v: "\<And>x. rowView x r = map (\<lambda>(h, p, l). (h, p)) (take 4 (drop (if r \<noteq> 0 then 4 else 0) (digitsOf x)))"
    by (simp add: rowView_def digitsOf_def take_map drop_map)
  show ?thesis by (simp only: v e)
qed

lemma rowView_refreshAllDisps:
  "length arr = 8 \<Longrightarrow> rowView (snd (refreshAllDisps b arr)) r = rowView arr r"
  by (rule rowView_digitsOf) (rule digitsOf_refreshAllDisps)

section \<open>The row increment\<close>

lemmas incDispRow_unfold =
  incDispRow_def targetIndex_def caseHundreds_def caseTens_def caseOnes_def
  caseTenths_def leaveThousands_def dispAt_def setHex_def setDp_def inBounds_def
  writeHexToSevSeg_def fst_hexToSevSeg hexToSevSeg_keeps PLACE_defs OFF_CODE_def
  Let_def case_prod_beta rowView_refreshAllDisps nth_refreshAllDisps

lemma tenths_from_1000:
  assumes len: "length arr = 8" and bot: "botRow \<noteq> 0"
    and h: "hexDigit (arr ! 4) = 1" "hexDigit (arr ! 5) = 0" "hexDigit (arr ! 6) = 0"
           "hexDigit (arr ! 7) = 0"
    and p: "dp (arr ! 4) = 0" "dp (arr ! 5) = 0" "dp (arr ! 6) = 0" "dp (arr ! 7) = 0"
    and sync: "currBinSegCode (arr ! 7) = nextBinSegCode (arr ! 7)"
  shows "fst (incDispRow past b arr TENTHS_PLACE botRow) = 0 \<and>
         rowView (snd (snd (incDispRow past b arr TENTHS_PLACE botRow))) botRow
           = [(OFF_CODE, 0), (OFF_CODE, 0), (0, 1), (1, 0)] \<and>
         thousandStateOf (snd (snd (incDispRow past b arr TENTHS_PLACE botRow))) botRow = 0"
proof -
  from len obtain a0 a1 a2 a3 a4 a5 a6 a7 where arr: "arr = [a0, a1, a2, a3, a4, a5, a6, a7]"
    by (rule length8E)
  show ?thesis using bot h p sync unfolding arr
    by (simp add: incDispRow_unfold thousandStateOf_def, simp add: rowView_def hexToSevSeg_keeps)
qed

lemma shownDisp_fields:
  "hexDigit (shownDisp h p) = h" "dp (shownDisp h p) = p" "activeLow (shownDisp h p) = 0"
  "currBinSegCode (shownDisp h p) = nextBinSegCode (shownDisp h p)"
  by (simp_all add: shownDisp_def commit_keeps hexToSevSeg_keeps)

lemma example_lengths:
  "length (blankRow @ row1000) = 8" "length (blankRow @ row9023) = 8"
  "length (row9023 @ blankRow) = 8"
  by (simp_all add: blankRow_def row1000_def row9023_def)

text \<open>
  C2. The claim: for a valid digit position and either row every access to the display
  array stays inside its 8 elements, the read of \<^verbatim>\<open>displayArr[dispRowIndex]\<close> at line 820
  included when the position is \<^verbatim>\<open>TENTHS_PLACE\<close> and the bottom row is in the thousands
  state. The code does not: with the bottom row showing \<^verbatim>\<open>1 0 0 0\<close> the index it reads at
  is 8, which is not an index of the array.
\<close>

theorem incDispRow_reads_past_array:
  "targetIndex (blankRow @ row1000) TENTHS_PLACE BOT_ROW = 8 \<and>
   \<not> inBounds (blankRow @ row1000) (uint (targetIndex (blankRow @ row1000) TENTHS_PLACE BOT_ROW)) \<and>
   dispAt past (blankRow @ row1000) (uint (targetIndex (blankRow @ row1000) TENTHS_PLACE BOT_ROW))
     = past"
  by (simp add: targetIndex_def thousandStateOf_def inBounds_def dispAt_def blankRow_def
      row1000_def shownDisp_fields TENTHS_PLACE_def BOT_ROW_def OFF_CODE_def)

text \<open>
  C5. The claim: from the bottom row \<^verbatim>\<open>1 0 0 0\<close> a tenths press gives blank, 0, blank with the
  decimal point, 1. The code gives another row, whatever lies past the array.
\<close>

theorem tenths_from_1000_not_as_specified:
  "rowView (snd (snd (incDispRow (shownDisp 0x0 0) idleBus (blankRow @ row1000) TENTHS_PLACE BOT_ROW))) BOT_ROW
     \<noteq> [(OFF_CODE, 0), (0x0, 0), (OFF_CODE, 1), (0x1, 0)]"
proof -
  have "rowView (snd (snd (incDispRow (shownDisp 0x0 0) idleBus (blankRow @ row1000) TENTHS_PLACE BOT_ROW))) BOT_ROW
     = [(OFF_CODE, 0), (OFF_CODE, 0), (0, 1), (1, 0)]"
    using tenths_from_1000 [of "blankRow @ row1000" BOT_ROW "shownDisp 0x0 0" idleBus]
    by (simp add: example_lengths, simp add: blankRow_def row1000_def shownDisp_fields BOT_ROW_def)
  then show ?thesis by (simp add: OFF_CODE_def)
qed

text \<open>
  C5, as the code has it (and as the examples in the header of \<^verbatim>\<open>incDispRow\<close> say): from
  the bottom row \<^verbatim>\<open>1 0 0 0\<close> without decimal points, the tenths display being in step, a
  tenths press succeeds and the row shows blank, blank, 0 with the decimal point, 1; the
  row has left the thousands state. This holds for every content of the memory past the
  array.
\<close>

theorem incDispRow_tenths_from_1000:
  assumes "length arr = 8" and "botRow \<noteq> 0"
    and "hexDigit (arr ! 4) = 1" "hexDigit (arr ! 5) = 0" "hexDigit (arr ! 6) = 0"
        "hexDigit (arr ! 7) = 0"
    and "dp (arr ! 4) = 0" "dp (arr ! 5) = 0" "dp (arr ! 6) = 0" "dp (arr ! 7) = 0"
    and "currBinSegCode (arr ! 7) = nextBinSegCode (arr ! 7)"
  shows "fst (incDispRow past b arr TENTHS_PLACE botRow) = 0 \<and>
         rowView (snd (snd (incDispRow past b arr TENTHS_PLACE botRow))) botRow
           = [(OFF_CODE, 0), (OFF_CODE, 0), (0, 1), (1, 0)] \<and>
         thousandStateOf (snd (snd (incDispRow past b arr TENTHS_PLACE botRow))) botRow = 0"
  using assms by (rule tenths_from_1000)

theorem incDispRow_tenths_from_1000_witness:
  "thousandStateOf (blankRow @ row1000) BOT_ROW = 1 \<and>
   fst (incDispRow (shownDisp 0x0 0) idleBus (blankRow @ row1000) TENTHS_PLACE BOT_ROW) = 0 \<and>
   rowView (snd (snd (incDispRow (shownDisp 0x0 0) idleBus (blankRow @ row1000) TENTHS_PLACE BOT_ROW))) BOT_ROW
     = [(OFF_CODE, 0), (OFF_CODE, 0), (0, 1), (1, 0)] \<and>
   thousandStateOf (snd (snd (incDispRow (shownDisp 0x0 0) idleBus (blankRow @ row1000) TENTHS_PLACE BOT_ROW))) BOT_ROW = 0"
proof -
  have t: "thousandStateOf (blankRow @ row1000) BOT_ROW = 1"
    by (simp add: thousandStateOf_def blankRow_def row1000_def shownDisp_fields BOT_ROW_def OFF_CODE_def)
  show ?thesis
    using t incDispRow_tenths_from_1000 [of "blankRow @ row1000" BOT_ROW "shownDisp 0x0 0" idleBus]
    by (simp add: example_lengths, simp add: blankRow_def row1000_def shownDisp_fields BOT_ROW_def)
qed


lemma hundreds_from_9_top:
  assumes len: "length arr = 8" and top: "botRow = 0"
    and nine: "hexDigit (arr ! 0) = 0x9"
    and nots: "thousandStateOf arr botRow = 0"
    and sync: "currBinSegCode (arr ! 0) = nextBinSegCode (arr ! 0)"
  shows "fst (incDispRow past b arr HUNDREDS_PLACE botRow) = 0 \<and>
         rowView (snd (snd (incDispRow past b arr HUNDREDS_PLACE botRow))) botRow
           = [(OFF_CODE, dp (arr ! 0)),
              (if hexDigit (arr ! 1) = 0x0 then OFF_CODE else hexDigit (arr ! 1), dp (arr ! 1)),
              (hexDigit (arr ! 2), dp (arr ! 2)),
              (hexDigit (arr ! 3), dp (arr ! 3))]"
proof -
  from len obtain a0 a1 a2 a3 a4 a5 a6 a7 where arr: "arr = [a0, a1, a2, a3, a4, a5, a6, a7]"
    by (rule length8E)
  show ?thesis using top nine nots sync unfolding arr
    by (simp add: incDispRow_unfold, simp add: rowView_def hexToSevSeg_keeps)
qed

lemma hundreds_from_9_bottom:
  assumes len: "length arr = 8" and bot: "botRow \<noteq> 0"
    and nine: "hexDigit (arr ! 4) = 0x9"
    and nots: "thousandStateOf arr botRow = 0"
    and sync: "currBinSegCode (arr ! 4) = nextBinSegCode (arr ! 4)"
  shows "fst (incDispRow past b arr HUNDREDS_PLACE botRow) = 0 \<and>
         rowView (snd (snd (incDispRow past b arr HUNDREDS_PLACE botRow))) botRow
           = [(0x1, dp (arr ! 4)), (0x0, dp (arr ! 5)),
              (hexDigit (arr ! 5), 0), (hexDigit (arr ! 6), dp (arr ! 7))] \<and>
         thousandStateOf (snd (snd (incDispRow past b arr HUNDREDS_PLACE botRow))) botRow
           = (if hexDigit (arr ! 6) = OFF_CODE then 0 else 1)"
proof -
  from len obtain a0 a1 a2 a3 a4 a5 a6 a7 where arr: "arr = [a0, a1, a2, a3, a4, a5, a6, a7]"
    by (rule length8E)
  show ?thesis using bot nine nots sync unfolding arr
    by (simp add: incDispRow_unfold, simp add: rowView_def thousandStateOf_def hexToSevSeg_keeps OFF_CODE_def nth_refreshAllDisps)
qed


text \<open>
  C6. A hundreds press on a row that is not in the thousands state and shows 9 in its
  hundreds display (that display being in step) succeeds. On the top row the hundreds
  display goes blank, the tens display goes blank if it showed 0 and stays otherwise,
  ones and tenths stay. On the bottom row the tens and ones digits move one display to
  the right, the display that receives the tens digit loses its decimal point, the
  old tens display shows 0 and the leftmost display shows 1; the row is then in the
  thousands state, provided the ones display showed a digit (the code keeps tens and
  ones at 0 or more whenever the hundreds display has a value, line 868).
\<close>

theorem incDispRow_hundreds_from_9:
  assumes "length arr = 8"
    and "hexDigit (arr ! (if botRow \<noteq> 0 then 4 else 0)) = 0x9"
    and "thousandStateOf arr botRow = 0"
    and "currBinSegCode (arr ! (if botRow \<noteq> 0 then 4 else 0))
           = nextBinSegCode (arr ! (if botRow \<noteq> 0 then 4 else 0))"
  shows "fst (incDispRow past b arr HUNDREDS_PLACE botRow) = 0 \<and>
    (botRow = 0 \<longrightarrow>
       rowView (snd (snd (incDispRow past b arr HUNDREDS_PLACE botRow))) botRow
         = [(OFF_CODE, dp (arr ! 0)),
            (if hexDigit (arr ! 1) = 0x0 then OFF_CODE else hexDigit (arr ! 1), dp (arr ! 1)),
            (hexDigit (arr ! 2), dp (arr ! 2)),
            (hexDigit (arr ! 3), dp (arr ! 3))]) \<and>
    (botRow \<noteq> 0 \<longrightarrow>
       rowView (snd (snd (incDispRow past b arr HUNDREDS_PLACE botRow))) botRow
         = [(0x1, dp (arr ! 4)), (0x0, dp (arr ! 5)),
            (hexDigit (arr ! 5), 0), (hexDigit (arr ! 6), dp (arr ! 7))] \<and>
       (hexDigit (arr ! 6) \<noteq> OFF_CODE \<longrightarrow>
          thousandStateOf (snd (snd (incDispRow past b arr HUNDREDS_PLACE botRow))) botRow = 1))"
proof (cases "botRow = 0")
  case True
  with assms hundreds_from_9_top [of arr botRow past b] show ?thesis by simp
next
  case False
  with assms hundreds_from_9_bottom [of arr botRow past b] show ?thesis by simp
qed

theorem incDispRow_hundreds_from_9_witness:
  "rowView (snd (snd (incDispRow (shownDisp 0x0 0) idleBus (row9023 @ blankRow) HUNDREDS_PLACE TOP_ROW))) TOP_ROW
     = [(OFF_CODE, 0), (OFF_CODE, 0), (0x2, 1), (0x3, 0)] \<and>
   rowView (snd (snd (incDispRow (shownDisp 0x0 0) idleBus (blankRow @ row9023) HUNDREDS_PLACE BOT_ROW))) BOT_ROW
     = [(0x1, 0), (0x0, 0), (0x0, 0), (0x2, 0)] \<and>
   thousandStateOf (snd (snd (incDispRow (shownDisp 0x0 0) idleBus (blankRow @ row9023) HUNDREDS_PLACE BOT_ROW))) BOT_ROW = 1"
proof -
  have t: "thousandStateOf (row9023 @ blankRow) TOP_ROW = 0"
          "thousandStateOf (blankRow @ row9023) BOT_ROW = 0"
    by (simp_all add: thousandStateOf_def blankRow_def row9023_def shownDisp_fields
        BOT_ROW_def TOP_ROW_def OFF_CODE_def)
  have top: "rowView (snd (snd (incDispRow (shownDisp 0x0 0) idleBus (row9023 @ blankRow) HUNDREDS_PLACE TOP_ROW))) TOP_ROW
     = [(OFF_CODE, 0), (OFF_CODE, 0), (0x2, 1), (0x3, 0)]"
    using t(1) incDispRow_hundreds_from_9 [of "row9023 @ blankRow" TOP_ROW "shownDisp 0x0 0" idleBus]
    by (simp add: example_lengths, simp add: blankRow_def row9023_def shownDisp_fields TOP_ROW_def)
  have bot: "rowView (snd (snd (incDispRow (shownDisp 0x0 0) idleBus (blankRow @ row9023) HUNDREDS_PLACE BOT_ROW))) BOT_ROW
     = [(0x1, 0), (0x0, 0), (0x0, 0), (0x2, 0)] \<and>
   thousandStateOf (snd (snd (incDispRow (shownDisp 0x0 0) idleBus (blankRow @ row9023) HUNDREDS_PLACE BOT_ROW))) BOT_ROW = 1"
    using t(2) incDispRow_hundreds_from_9 [of "blankRow @ row9023" BOT_ROW "shownDisp 0x0 0" idleBus]
    by (simp add: example_lengths, simp add: blankRow_def row9023_def shownDisp_fields BOT_ROW_def OFF_CODE_def)
  from top bot show ?thesis by simp
qed


section \<open>Ten presses of the ones button\<close>

lemma nextDigit_valid: "nextDigit h < 0x12"
proof (cases "h + 1 > 0x9")
  case True
  then show ?thesis by (simp add: nextDigit_def)
next
  case False
  then have "h + 1 \<le> 0x9" by simp
  also have "(0x9 :: u8) < 0x12" by simp
  finally show ?thesis using False by (simp add: nextDigit_def)
qed

lemma caseOnes_nextDigit: "caseOnes arr i (h + 1) = (arr, i, nextDigit h)"
  by (simp add: caseOnes_def nextDigit_def)

lemma funpow_ten: "(f ^^ 10) x = f (f (f (f (f (f (f (f (f (f x)))))))))"
  by (simp add: eval_nat_numeral)

lemma nextDigit_ten:
  assumes "h \<le> 0x9"
  shows "(nextDigit ^^ 10) h = h"
proof -
  from assms have "h \<le> 0x10" by (rule order_trans) simp
  then have "h = 0 \<or> h = 1 \<or> h = 2 \<or> h = 3 \<or> h = 4 \<or> h = 5 \<or> h = 6 \<or> h = 7 \<or> h = 8
    \<or> h = 9 \<or> h = 10 \<or> h = 11 \<or> h = 12 \<or> h = 13 \<or> h = 14 \<or> h = 15 \<or> h = 16"
    by (rule u8_le_16_cases)
  then show ?thesis using assms
    by (elim disjE) (simp_all add: funpow_ten nextDigit_def)
qed

lemmas onesPress_unfold =
  onesPress_def incDispRow_def targetIndex_def caseOnes_nextDigit
  dispAt_def inBounds_def writeHexToSevSeg_def fst_hexToSevSeg hexToSevSeg_keeps
  nextDigit_valid PLACE_defs Let_def case_prod_beta nth_refreshAllDisps digitsOf_refreshAllDisps

lemma onesPress_step:
  assumes len: "length arr = 8" and nots: "thousandStateOf arr botRow = 0"
    and k: "k = (if botRow \<noteq> 0 then 6 else 2)"
    and sync: "currBinSegCode (arr ! k) = nextBinSegCode (arr ! k)"
  shows "length (snd (onesPress past botRow (b, arr))) = 8"
    and "thousandStateOf (snd (onesPress past botRow (b, arr))) botRow = 0"
    and "currBinSegCode (snd (onesPress past botRow (b, arr)) ! k)
           = nextBinSegCode (snd (onesPress past botRow (b, arr)) ! k)"
    and "digitsOf (snd (onesPress past botRow (b, arr)))
           = (digitsOf arr)[k := (nextDigit (hexDigit (arr ! k)), dp (arr ! k), activeLow (arr ! k))]"
proof -
  from len obtain a0 a1 a2 a3 a4 a5 a6 a7 where arr: "arr = [a0, a1, a2, a3, a4, a5, a6, a7]"
    by (rule length8E)
  have d: "digitsOf (snd (onesPress past botRow (b, arr)))
           = (digitsOf arr)[k := (nextDigit (hexDigit (arr ! k)), dp (arr ! k), activeLow (arr ! k))]"
    using nots sync unfolding arr k
    by (cases "botRow = 0") (simp_all add: onesPress_unfold, simp_all add: digitsOf_def hexToSevSeg_keeps)
  show "digitsOf (snd (onesPress past botRow (b, arr)))
           = (digitsOf arr)[k := (nextDigit (hexDigit (arr ! k)), dp (arr ! k), activeLow (arr ! k))]"
    by (rule d)
  show l: "length (snd (onesPress past botRow (b, arr))) = 8"
    using arg_cong [OF d, of length] len by (simp add: digitsOf_def)
  show "thousandStateOf (snd (onesPress past botRow (b, arr))) botRow = 0"
    using nots sync unfolding arr k
    by (cases "botRow = 0") (simp_all add: onesPress_unfold, simp_all add: thousandStateOf_def nth_refreshAllDisps hexToSevSeg_keeps)
  show "currBinSegCode (snd (onesPress past botRow (b, arr)) ! k)
           = nextBinSegCode (snd (onesPress past botRow (b, arr)) ! k)"
    using nots sync unfolding arr k
    by (cases "botRow = 0") (simp_all add: onesPress_unfold)
qed


text \<open>
  A blank ones display does not come back: the first press shows 0 and nine more show 9.
\<close>

lemma nextDigit_ten_from_OFF: "(nextDigit ^^ 10) OFF_CODE = 0x9"
  by (simp add: funpow_ten nextDigit_def OFF_CODE_def)

lemma onesPress_iter:
  assumes len: "length arr = 8" and nots: "thousandStateOf arr botRow = 0"
    and k: "k = (if botRow \<noteq> 0 then 6 else 2)"
    and sync: "currBinSegCode (arr ! k) = nextBinSegCode (arr ! k)"
  shows "length (snd ((onesPress past botRow ^^ n) (b, arr))) = 8 \<and>
    thousandStateOf (snd ((onesPress past botRow ^^ n) (b, arr))) botRow = 0 \<and>
    currBinSegCode (snd ((onesPress past botRow ^^ n) (b, arr)) ! k)
      = nextBinSegCode (snd ((onesPress past botRow ^^ n) (b, arr)) ! k) \<and>
    digitsOf (snd ((onesPress past botRow ^^ n) (b, arr)))
      = (digitsOf arr)[k := ((nextDigit ^^ n) (hexDigit (arr ! k)), dp (arr ! k), activeLow (arr ! k))]"
proof (induction n)
  case 0
  have kl: "k < length arr" using len k by simp
  have "(digitsOf arr)[k := (hexDigit (arr ! k), dp (arr ! k), activeLow (arr ! k))] = digitsOf arr"
    using kl by (simp add: digitsOf_def list_update_same_conv)
  then show ?case using len nots sync by simp
next
  case (Suc n)
  obtain bn an where s: "(onesPress past botRow ^^ n) (b, arr) = (bn, an)"
    by (cases "(onesPress past botRow ^^ n) (b, arr)")
  from Suc.IH s have ln: "length an = 8" and tn: "thousandStateOf an botRow = 0"
    and sn: "currBinSegCode (an ! k) = nextBinSegCode (an ! k)"
    and dn: "digitsOf an
      = (digitsOf arr)[k := ((nextDigit ^^ n) (hexDigit (arr ! k)), dp (arr ! k), activeLow (arr ! k))]"
    by simp_all
  have kl: "k < length (digitsOf arr)" using len k by (simp add: digitsOf_def)
  have "digitsOf an ! k = ((nextDigit ^^ n) (hexDigit (arr ! k)), dp (arr ! k), activeLow (arr ! k))"
    using dn kl by simp
  moreover have "digitsOf an ! k = (hexDigit (an ! k), dp (an ! k), activeLow (an ! k))"
    using ln k by (simp add: digitsOf_def)
  ultimately have f: "hexDigit (an ! k) = (nextDigit ^^ n) (hexDigit (arr ! k))"
    "dp (an ! k) = dp (arr ! k)" "activeLow (an ! k) = activeLow (arr ! k)"
    by simp_all
  have e: "(onesPress past botRow ^^ Suc n) (b, arr) = onesPress past botRow (bn, an)"
    using s by simp
  show ?case unfolding e
    using onesPress_step [OF ln tn k sn, of past bn] f dn by simp
qed

lemma map_hexDigit_digitsOf: "map hexDigit arr = map fst (digitsOf arr)"
  by (simp add: digitsOf_def)

lemma map_dp_digitsOf: "map dp arr = map (fst \<circ> snd) (digitsOf arr)"
  by (simp add: digitsOf_def)

text \<open>
  C9. On a row that is not in the thousands state, whose ones display is in step and
  shows a decimal digit 0 to 9, ten presses of the ones button bring the ones display
  back to its digit and leave the digit and the decimal point of every display of the
  array as they were.
\<close>

theorem ones_ten_presses:
  assumes len: "length arr = 8" and nots: "thousandStateOf arr botRow = 0"
    and sync: "currBinSegCode (arr ! (if botRow \<noteq> 0 then 6 else 2))
                 = nextBinSegCode (arr ! (if botRow \<noteq> 0 then 6 else 2))"
    and digit: "hexDigit (arr ! (if botRow \<noteq> 0 then 6 else 2)) \<le> 0x9"
  shows "map hexDigit (snd ((onesPress past botRow ^^ 10) (b, arr))) = map hexDigit arr \<and>
         map dp (snd ((onesPress past botRow ^^ 10) (b, arr))) = map dp arr"
proof -
  define k :: nat where "k = (if botRow \<noteq> 0 then 6 else 2)"
  have kl: "k < length arr" using len by (simp add: k_def)
  have "digitsOf (snd ((onesPress past botRow ^^ 10) (b, arr)))
      = (digitsOf arr)[k := ((nextDigit ^^ 10) (hexDigit (arr ! k)), dp (arr ! k), activeLow (arr ! k))]"
    using onesPress_iter [OF len nots k_def, where past = past and n = 10 and b = b] sync
    by (simp add: k_def)
  also have "(nextDigit ^^ 10) (hexDigit (arr ! k)) = hexDigit (arr ! k)"
    using digit by (simp add: k_def nextDigit_ten)
  also have "(digitsOf arr)[k := (hexDigit (arr ! k), dp (arr ! k), activeLow (arr ! k))] = digitsOf arr"
    using kl by (simp add: digitsOf_def list_update_same_conv)
  finally show ?thesis by (simp only: map_hexDigit_digitsOf map_dp_digitsOf)
qed

theorem ones_ten_presses_witness:
  "map hexDigit (snd ((onesPress (shownDisp 0x0 0) BOT_ROW ^^ 10) (idleBus, blankRow @ row9023)))
     = map hexDigit (blankRow @ row9023) \<and>
   map dp (snd ((onesPress (shownDisp 0x0 0) BOT_ROW ^^ 10) (idleBus, blankRow @ row9023)))
     = map dp (blankRow @ row9023) \<and>
   hexDigit ((blankRow @ row9023) ! 6) = 0x2"
proof -
  have t: "thousandStateOf (blankRow @ row9023) BOT_ROW = 0"
    by (simp add: thousandStateOf_def blankRow_def row9023_def shownDisp_fields BOT_ROW_def OFF_CODE_def)
  have h: "hexDigit ((blankRow @ row9023) ! 6) = 0x2"
          "currBinSegCode ((blankRow @ row9023) ! 6) = nextBinSegCode ((blankRow @ row9023) ! 6)"
    by (simp_all add: blankRow_def row9023_def shownDisp_fields)
  have six: "(if BOT_ROW \<noteq> 0 then 6 else 2) = (6::nat)" by (simp add: BOT_ROW_def)
  show ?thesis
    using h ones_ten_presses [OF example_lengths(2) t, where past = "shownDisp 0x0 0" and b = idleBus]
    by (simp add: six)
qed



section \<open>A failed keypad scan\<close>

text \<open>
  A scan that finds no key leaves the edge select, the pending coordinate and the
  committed coordinate as they were: only the successful exit of the inner loop writes
  \<^verbatim>\<open>pendingKeyCoord\<close> and \<^verbatim>\<open>ROW_IES\<close>.
\<close>

lemma scanRows_miss:
  "scanRows rowIn c rs k = (False, k') \<Longrightarrow>
     P2IES k' = P2IES k \<and> pendingKeyCoord k' = pendingKeyCoord k \<and>
     currKeyCoord k' = currKeyCoord k \<and> ROW_PINS k' = ROW_PINS k \<and> COL_PINS k' = COL_PINS k"
proof (induction rs arbitrary: k)
  case Nil
  then show ?case by simp
next
  case (Cons r rs)
  let ?k1 = "k\<lparr>reads := Suc (reads k)\<rparr>"
  from Cons.prems have "scanRows rowIn c rs ?k1 = (False, k')"
    by (simp add: readRowIn_def split: if_splits)
  from Cons.IH [OF this] show ?case by simp
qed

lemma scanCols_miss:
  "scanCols rowIn cs k = (e, k') \<Longrightarrow> e \<noteq> 0 \<Longrightarrow>
     P2IES k' = P2IES k \<and> pendingKeyCoord k' = pendingKeyCoord k \<and>
     currKeyCoord k' = currKeyCoord k \<and> ROW_PINS k' = ROW_PINS k \<and> COL_PINS k' = COL_PINS k"
proof (induction cs arbitrary: k)
  case Nil
  then show ?case by simp
next
  case (Cons c cs)
  show ?case
  proof (cases "push_bit c BIT0 AND COL_PINS k = 0")
    case True
    with Cons.prems have "scanCols rowIn cs k = (e, k')" by simp
    from Cons.IH [OF this Cons.prems(2)] show ?thesis .
  next
    case False
    let ?k2 = "k\<lparr>P2OUT := (P2OUT k AND NOT (COL_PINS k)) OR push_bit c BIT0\<rparr>"
    let ?v = "rowIn (reads k) (P2OUT ?k2)"
    let ?k3 = "?k2\<lparr>reads := Suc (reads k)\<rparr>"
    show ?thesis
    proof (cases "?v AND ROW_PINS k \<noteq> 0")
      case True
      obtain found k4 where r: "scanRows rowIn c [0..<8] ?k3 = (found, k4)"
        by (cases "scanRows rowIn c [0..<8] ?k3")
      show ?thesis
      proof (cases found)
        case True
        with Cons.prems \<open>push_bit c BIT0 AND COL_PINS k \<noteq> 0\<close> \<open>?v AND ROW_PINS k \<noteq> 0\<close> r
        have "e = 0" by (simp add: readRowIn_def Let_def)
        with Cons.prems(2) show ?thesis by simp
      next
        case False
        with Cons.prems \<open>push_bit c BIT0 AND COL_PINS k \<noteq> 0\<close> \<open>?v AND ROW_PINS k \<noteq> 0\<close> r
        have "scanCols rowIn cs k4 = (e, k')" by (simp add: readRowIn_def Let_def)
        from Cons.IH [OF this Cons.prems(2)] scanRows_miss [of rowIn c "[0..<8]" ?k3 k4] r False
        show ?thesis by simp
      qed
    next
      case False
      with Cons.prems \<open>push_bit c BIT0 AND COL_PINS k \<noteq> 0\<close>
      have "scanCols rowIn cs ?k3 = (e, k')" by (simp add: readRowIn_def Let_def)
      from Cons.IH [OF this Cons.prems(2)] show ?thesis by simp
    qed
  qed
qed

lemma scanForKeyPress_miss:
  assumes "fst (scanForKeyPress rowIn k) \<noteq> 0"
  shows "P2IES (snd (scanForKeyPress rowIn k)) = P2IES k \<and>
         pendingKeyCoord (snd (scanForKeyPress rowIn k)) = pendingKeyCoord k \<and>
         currKeyCoord (snd (scanForKeyPress rowIn k)) = currKeyCoord k"
proof -
  let ?k0 = "k\<lparr>P2IE := P2IE k AND NOT (ROW_PINS k)\<rparr>"
  obtain e k1 where r: "scanCols rowIn [0..<8] ?k0 = (e, k1)"
    by (cases "scanCols rowIn [0..<8] ?k0")
  with assms have "e \<noteq> 0" by (simp add: scanForKeyPress_def Let_def)
  from scanCols_miss [OF r this] r show ?thesis
    by (simp add: scanForKeyPress_def Let_def)
qed


lemma and_not_and_self: "((x::u8) AND NOT m) AND m = 0"
  by (simp add: bit_eq_iff bit_simps)

lemma xor_cleared_flag: "(((x::u8) AND NOT m) XOR (y AND NOT m)) AND m = 0"
  by (auto simp: bit_eq_iff bit_simps)

lemma pressBranch_miss:
  assumes miss: "fst (scanForKeyPress rowIn (geminiKeypad s)) \<noteq> 0"
  shows "pressBranch rowIn s =
    s\<lparr>geminiKeypad := snd (scanForKeyPress rowIn (geminiKeypad s)),
      currSysState := currSysState s AND NOT FLAG_KEYPAD_PRESS,
      prevSysState := prevSysState s AND NOT FLAG_KEYPAD_PRESS\<rparr>"
  using miss by (simp add: pressBranch_def Let_def case_prod_beta)

text \<open>
  C8. The main loop sees a debounced press (\<^verbatim>\<open>FLAG_KEYPAD_PRESS\<close> set in \<^verbatim>\<open>currSysState\<close>,
  clear in \<^verbatim>\<open>prevSysState\<close>) and \<^verbatim>\<open>scanForKeyPress\<close> returns nonzero. Then the flag is
  cleared in both snapshots and no other flag of either changes, \<^verbatim>\<open>currKeyCoord\<close> and the
  edge select \<^verbatim>\<open>P2IES\<close> are as before, the displays are untouched, and a further pass of
  the keypad branch does nothing: no release is acted on and \<^verbatim>\<open>saveKeyPress\<close> is not
  reached. The pass is taken without an interrupt arriving in between.
\<close>

theorem scan_miss_discards_press:
  assumes ev: "(currSysState s XOR prevSysState s) AND FLAG_KEYPAD_PRESS \<noteq> 0"
    and pr: "currSysState s AND FLAG_KEYPAD_PRESS \<noteq> 0"
    and miss: "fst (scanForKeyPress rowIn (geminiKeypad s)) \<noteq> 0"
  shows "currSysState (keypadEvent rowIn past s) = currSysState s AND NOT FLAG_KEYPAD_PRESS \<and>
         prevSysState (keypadEvent rowIn past s) = prevSysState s AND NOT FLAG_KEYPAD_PRESS \<and>
         currSysState (keypadEvent rowIn past s) AND FLAG_KEYPAD_PRESS = 0 \<and>
         prevSysState (keypadEvent rowIn past s) AND FLAG_KEYPAD_PRESS = 0 \<and>
         currKeyCoord (geminiKeypad (keypadEvent rowIn past s)) = currKeyCoord (geminiKeypad s) \<and>
         P2IES (geminiKeypad (keypadEvent rowIn past s)) = P2IES (geminiKeypad s) \<and>
         sevSegDispArr (keypadEvent rowIn past s) = sevSegDispArr s \<and>
         keypadEvent rowIn' past' (keypadEvent rowIn past s) = keypadEvent rowIn past s"
proof -
  let ?s1 = "pressBranch rowIn s"
  have e: "keypadEvent rowIn past s =
      (if nextLedSRState ?s1 XOR currLedSRState ?s1 \<noteq> 0
       then ?s1\<lparr>spi := writeLeds (spi ?s1) (nextLedSRState ?s1),
                currLedSRState := nextLedSRState ?s1\<rparr>
       else ?s1)"
    using ev pr by (simp add: keypadEvent_def Let_def)
  have c: "currSysState (keypadEvent rowIn past s) = currSysState s AND NOT FLAG_KEYPAD_PRESS"
    and p: "prevSysState (keypadEvent rowIn past s) = prevSysState s AND NOT FLAG_KEYPAD_PRESS"
    and k: "geminiKeypad (keypadEvent rowIn past s) = snd (scanForKeyPress rowIn (geminiKeypad s))"
    and d: "sevSegDispArr (keypadEvent rowIn past s) = sevSegDispArr s"
    unfolding e pressBranch_miss [OF miss] by simp_all
  have again: "keypadEvent rowIn' past' (keypadEvent rowIn past s) = keypadEvent rowIn past s"
    by (simp add: keypadEvent_def [of rowIn' past'] c p xor_cleared_flag)
  show ?thesis
    using c p k d again scanForKeyPress_miss [OF miss] by (simp add: and_not_and_self)
qed

theorem scan_miss_discards_press_witness:
  "fst (scanForKeyPress (\<lambda>n out. 0) (geminiKeypad (examplePanel\<lparr>currSysState := FLAG_KEYPAD_PRESS\<rparr>))) = 1 \<and>
   currSysState (keypadEvent (\<lambda>n out. 0) (shownDisp 0x0 0) (examplePanel\<lparr>currSysState := FLAG_KEYPAD_PRESS\<rparr>)) = 0 \<and>
   prevSysState (keypadEvent (\<lambda>n out. 0) (shownDisp 0x0 0) (examplePanel\<lparr>currSysState := FLAG_KEYPAD_PRESS\<rparr>)) = 0 \<and>
   currKeyCoord (geminiKeypad (keypadEvent (\<lambda>n out. 0) (shownDisp 0x0 0) (examplePanel\<lparr>currSysState := FLAG_KEYPAD_PRESS\<rparr>))) = 0 \<and>
   P2IES (geminiKeypad (keypadEvent (\<lambda>n out. 0) (shownDisp 0x0 0) (examplePanel\<lparr>currSysState := FLAG_KEYPAD_PRESS\<rparr>))) = 0"
proof -
  have m: "fst (scanForKeyPress (\<lambda>n out. 0) (geminiKeypad (examplePanel\<lparr>currSysState := FLAG_KEYPAD_PRESS\<rparr>))) = 1"
    by (simp add: examplePanel_def exampleKeypad_def scanForKeyPress_def upt_0_8 readRowIn_def
        BIT_defs Let_def)
  show ?thesis
    using m scan_miss_discards_press [of "examplePanel\<lparr>currSysState := FLAG_KEYPAD_PRESS\<rparr>"
        "\<lambda>n out. 0" "shownDisp 0x0 0" "\<lambda>n out. 0" "shownDisp 0x0 0"]
    by (simp add: examplePanel_def exampleKeypad_def FLAG_KEYPAD_PRESS_def BIT0_def)
qed

section \<open>The LED groups\<close>

lemma saveKeyPress_coord: "currKeyCoord (saveKeyPress k) = pendingKeyCoord k"
  by (simp add: saveKeyPress_def Let_def)


text \<open>
  What \<^verbatim>\<open>case CC_MONITOR\<close> does for every LED pattern: the tests of lines 336-338 compare
  masked bits of different LEDs, so the first branch is taken exactly when none of the
  three LEDs is lit.
\<close>

lemma xor_eq_0: "((x::u8) XOR y = 0) = (x = y)"
  by (metis bit.xor_self xor.assoc xor.right_neutral)

lemma disjoint_masks_xor:
  assumes "(m::u8) AND n = 0"
  shows "((c AND m) XOR (c AND n) = 0) = (c AND m = 0 \<and> c AND n = 0)"
proof
  assume "(c AND m) XOR (c AND n) = 0"
  then have e: "c AND m = c AND n" by (simp add: xor_eq_0)
  have "c AND m = (c AND m) AND m" by (simp add: and.assoc)
  also have "\<dots> = (c AND n) AND m" using e by simp
  also have "\<dots> = c AND (m AND n)" by (simp add: ac_simps)
  also have "\<dots> = 0" using assms by simp
  finally have "c AND m = 0" .
  with e show "c AND m = 0 \<and> c AND n = 0" by simp
next
  assume "c AND m = 0 \<and> c AND n = 0"
  then show "(c AND m) XOR (c AND n) = 0" by simp
qed

lemma ledsCC_MONITOR_normalises_only_from_none:
  "ledsCC_MONITOR currLed nextLed =
    (if currLed AND LED_CC = 0 \<and> currLed AND LED_BLANKBUTTON = 0 \<and> currLed AND LED_MONITOR = 0
     then (nextLed AND NOT (LED_BLANKBUTTON OR LED_MONITOR)) OR LED_CC
     else if currLed AND LED_CC \<noteq> 0 then (nextLed AND NOT LED_CC) OR LED_BLANKBUTTON
     else if currLed AND LED_BLANKBUTTON \<noteq> 0 then (nextLed AND NOT LED_BLANKBUTTON) OR LED_MONITOR
     else nextLed AND NOT LED_MONITOR)"
proof -
  have d: "LED_CC AND LED_BLANKBUTTON = 0" "LED_BLANKBUTTON AND LED_MONITOR = 0"
    "LED_CC AND LED_MONITOR = 0"
    by (simp_all add: LED_defs BIT_defs)
  show ?thesis
    unfolding ledsCC_MONITOR_def
    using disjoint_masks_xor [OF d(1), of currLed] disjoint_masks_xor [OF d(2), of currLed]
      disjoint_masks_xor [OF d(3), of currLed]
    by auto
qed

text \<open>
  C7. The claim: with the pump not active, a press of \<^verbatim>\<open>CC_MONITOR\<close>, \<^verbatim>\<open>PC_MODE\<close> or
  \<^verbatim>\<open>VOLUME_INFUSED\<close> on a group with none or more than one LED lit leaves exactly the first
  member of the group lit. The code does not when more than one is lit: with all three
  of CC, blank button and monitor lit, \<^verbatim>\<open>CC_MONITOR\<close> leaves blank button and monitor lit;
  with controller and pump lit, \<^verbatim>\<open>PC_MODE\<close> leaves the pump LED, not the controller LED;
  with battery and plug lit, \<^verbatim>\<open>VOLUME_INFUSED\<close> leaves the plug LED, not the battery LED.
\<close>

theorem led_groups_not_normalised:
  "nextLedSRState (keypadEvent rowIn past
      (releasePending CC_MONITOR (LED_CC OR LED_BLANKBUTTON OR LED_MONITOR)))
     = LED_BLANKBUTTON OR LED_MONITOR \<and>
   nextLedSRState (keypadEvent rowIn past (releasePending PC_MODE (LED_CONTROLLER OR LED_PUMP)))
     = LED_PUMP \<and>
   nextLedSRState (keypadEvent rowIn past
      (releasePending VOLUME_INFUSED (LED_BATTPWR OR LED_PLUGPWR)))
     = LED_PLUGPWR"
  by (simp add: keypadEvent_def releaseBranch_def keyAction_def releasePending_def
      examplePanel_def exampleKeypad_def saveKeyPress_coord ledsCC_MONITOR_def ledsPC_MODE_def
      ledsVOLUME_INFUSED_def KEY_defs LED_defs FLAG_defs BIT_defs Let_def)

section \<open>Power off and power on\<close>


lemma waitForRelease_ends:
  "(\<exists>r\<in>set p1in. r AND KEYPAD_PWR_BTN \<noteq> 0) \<Longrightarrow> waitForRelease p1in"
  by (induction p1in) auto

lemma fst_refreshAllDisps_eight:
  assumes "P3OUT b = 0"
  shows "fst (refreshAllDisps b [a0, a1, a2, a3, a4, a5, a6, a7])
     = b\<lparr>sent := sent b @ refreshFrames (P1OUT b) [a0, a1, a2, a3, a4, a5, a6, a7]\<rparr>"
  using assms
  by (simp add: refreshAllDisps_def refreshFrames_def NUM_DISPS_def upt_0_8 refreshDisp_def
      usciXNSpiPutChar_def DISP0_def BIT0_def Let_def)

lemma fst_refreshAllDisps:
  assumes "length arr = 8" "P3OUT b = 0"
  shows "fst (refreshAllDisps b arr) = b\<lparr>sent := sent b @ refreshFrames (P1OUT b) arr\<rparr>"
proof -
  from assms(1) obtain a0 a1 a2 a3 a4 a5 a6 a7 where arr: "arr = [a0, a1, a2, a3, a4, a5, a6, a7]"
    by (rule length8E)
  show ?thesis unfolding arr using assms(2) by (rule fst_refreshAllDisps_eight)
qed

lemma steady_refresh:
  assumes "\<forall>d\<in>set arr. steady d"
  shows "map (\<lambda>d. commit (snd (hexToSevSeg d))) arr = arr"
proof -
  have "\<And>d. d \<in> set arr \<Longrightarrow> commit (snd (hexToSevSeg d)) = d"
    using assms by (simp add: steady_def commit_def)
  then show ?thesis by (simp add: map_idI)
qed

lemma steady_frames:
  assumes st: "\<forall>d\<in>set arr. steady d" and len: "length arr = 8"
  shows "map (\<lambda>(cs, p1, byte). byte) (refreshFrames p1out arr) = map currBinSegCode arr"
proof -
  from len obtain a0 a1 a2 a3 a4 a5 a6 a7 where arr: "arr = [a0, a1, a2, a3, a4, a5, a6, a7]"
    by (rule length8E)
  show ?thesis using st unfolding arr
    by (simp add: refreshFrames_def NUM_DISPS_def upt_0_8 steady_def)
qed


lemma sync_flag: "((p::u8) XOR ((p XOR c) AND m)) AND m = c AND m"
  by (auto simp: bit_eq_iff bit_simps)

lemma or_and_self: "((x::u8) OR m) AND m = m"
  by (auto simp: bit_eq_iff bit_simps)

lemma and_not_ALL_DISPS: "(x::u8) AND NOT ALL_DISPS = 0"
proof -
  have "ALL_DISPS = - 1" by (simp add: ALL_DISPS_def)
  moreover have "NOT (- 1 :: u8) = 0" by simp
  ultimately show ?thesis by (simp only: and_zero_eq)
qed

lemma pwr_flag_bit: "((x::u8) AND FLAG_PWR_OFF \<noteq> 0) = bit x (Suc 0)"
  using and_exp_eq_0_iff_not_bit [of x 1] by (simp add: FLAG_PWR_OFF_def BIT1_def)

lemma pwr_flag_bit0: "((x::u8) AND FLAG_PWR_OFF = 0) = (\<not> bit x (Suc 0))"
  using pwr_flag_bit [of x] by blast

lemma flag_bit1:
  "bit FLAG_PWR_OFF (Suc 0)" "\<not> bit FLAG_KEYPAD_PRESS (Suc 0)" "\<not> bit FLAG_RATE_EDIT (Suc 0)"
  "\<not> bit FLAG_VTBI_EDIT (Suc 0)" "\<not> bit FLAG_PUMP_ACTIVE (Suc 0)"
  by (simp_all add: FLAG_defs BIT_defs)

lemmas pwr_bits = bit_and_iff bit_or_iff bit_xor_iff bit_not_iff flag_bit1

lemma powerBranch_off:
  assumes off: "currSysState s AND FLAG_PWR_OFF \<noteq> 0"
  shows "sevSegDispArr (powerBranch s) = sevSegDispArr s"
    and "currLedSRState (powerBranch s) = currLedSRState s"
    and "nextLedSRState (powerBranch s) = nextLedSRState s"
    and "sent (spi (powerBranch s)) = sent (spi s) @
           [(P3OUT (spi s) OR ALL_DISPS, P1OUT (spi s), 0x00),
            (0x00, P1OUT (spi s) OR LEDSR, LED_PLUGPWR)]"
    and "P3OUT (spi (powerBranch s)) = 0"
    and "bit (currSysState (powerBranch s)) (Suc 0)"
    and "bit (prevSysState (powerBranch s)) (Suc 0)"
proof -
  have b: "bit (currSysState s) (Suc 0)" using off by (simp add: pwr_flag_bit)
  show "sevSegDispArr (powerBranch s) = sevSegDispArr s"
    "currLedSRState (powerBranch s) = currLedSRState s"
    "nextLedSRState (powerBranch s) = nextLedSRState s"
    using off by (simp_all add: powerBranch_def Let_def)
  show "sent (spi (powerBranch s)) = sent (spi s) @
           [(P3OUT (spi s) OR ALL_DISPS, P1OUT (spi s), 0x00),
            (0x00, P1OUT (spi s) OR LEDSR, LED_PLUGPWR)]"
    "P3OUT (spi (powerBranch s)) = 0"
    using off by (simp_all add: powerBranch_def Let_def writeLeds_def usciXNSpiPutChar_def and_not_ALL_DISPS)
  show "bit (currSysState (powerBranch s)) (Suc 0)" "bit (prevSysState (powerBranch s)) (Suc 0)"
    using off b by (auto simp: powerBranch_def Let_def pwr_bits)
qed

lemma isr_after_edge:
  shows "sevSegDispArr (pwrbtnPressISR (pwrBtnEdge s)) = sevSegDispArr s"
    and "currLedSRState (pwrbtnPressISR (pwrBtnEdge s)) = currLedSRState s"
    and "nextLedSRState (pwrbtnPressISR (pwrBtnEdge s)) = nextLedSRState s"
    and "spi (pwrbtnPressISR (pwrBtnEdge s)) = spi s"
    and "bit (currSysState (pwrbtnPressISR (pwrBtnEdge s))) (Suc 0) = (\<not> bit (currSysState s) (Suc 0))"
    and "bit (prevSysState (pwrbtnPressISR (pwrBtnEdge s))) (Suc 0) = bit (prevSysState s) (Suc 0)"
proof -
  have f: "P1IFG (pwrBtnEdge s) AND KEYPAD_PWR_BTN \<noteq> 0"
    by (simp add: pwrBtnEdge_def or_and_self) (simp add: KEYPAD_PWR_BTN_def BIT0_def)
  show "sevSegDispArr (pwrbtnPressISR (pwrBtnEdge s)) = sevSegDispArr s"
    "currLedSRState (pwrbtnPressISR (pwrBtnEdge s)) = currLedSRState s"
    "nextLedSRState (pwrbtnPressISR (pwrBtnEdge s)) = nextLedSRState s"
    "spi (pwrbtnPressISR (pwrBtnEdge s)) = spi s"
    "bit (currSysState (pwrbtnPressISR (pwrBtnEdge s))) (Suc 0) = (\<not> bit (currSysState s) (Suc 0))"
    "bit (prevSysState (pwrbtnPressISR (pwrBtnEdge s))) (Suc 0) = bit (prevSysState s) (Suc 0)"
    using f by (auto simp: pwrbtnPressISR_def disableKeypad_def Let_def pwr_bits pwrBtnEdge_def)
qed

lemma powerBranch_on:
  assumes on: "currSysState s AND FLAG_PWR_OFF = 0"
    and len: "length (sevSegDispArr s) = 8" and idle: "P3OUT (spi s) = 0"
  shows "sevSegDispArr (powerBranch s) = map (\<lambda>d. commit (snd (hexToSevSeg d))) (sevSegDispArr s)"
    and "currLedSRState (powerBranch s) = currLedSRState s"
    and "sent (spi (powerBranch s)) = sent (spi s) @ refreshFrames (P1OUT (spi s)) (sevSegDispArr s) @
           [(0x00, P1OUT (spi s) OR LEDSR, currLedSRState s)]"
  using on idle
  by (simp_all add: powerBranch_def Let_def case_prod_beta enableKeypad_def
      snd_refreshAllDisps [OF len] fst_refreshAllDisps [OF len idle] writeLeds_def
      usciXNSpiPutChar_def)


text \<open>
  C10. The panel is on and the power button has been pressed (\<^verbatim>\<open>FLAG_PWR_OFF\<close> set in
  \<^verbatim>\<open>currSysState\<close>, clear in \<^verbatim>\<open>prevSysState\<close>); the button is released at some moment. The
  power branch of the main loop then returns; it has sent \<^verbatim>\<open>0x00\<close> with all display
  chip selects active and \<^verbatim>\<open>LED_PLUGPWR\<close> with the LED chip select active, and nothing
  else; every field of the eight display objects and both LED variables are as before.
  After the next press of the button (interrupt routine, then the power branch) the
  panel is on again: the branch has sent, display by display, the pattern converted
  from the kept digit and decimal point, then the kept \<^verbatim>\<open>currLedSRState\<close> to the LED
  register. Where the displays were in their steady state these patterns are the kept
  \<^verbatim>\<open>currBinSegCode\<close> values and the display objects are again exactly as before.
\<close>

theorem power_off_then_on:
  assumes len: "length (sevSegDispArr s) = 8"
    and off: "currSysState s AND FLAG_PWR_OFF \<noteq> 0"
    and was_on: "prevSysState s AND FLAG_PWR_OFF = 0"
    and rel1: "\<exists>r\<in>set p1in. r AND KEYPAD_PWR_BTN \<noteq> 0"
    and rel2: "\<exists>r\<in>set p1in'. r AND KEYPAD_PWR_BTN \<noteq> 0"
  shows "let s1 = powerBranch s; s2 = powerBranch (pwrbtnPressISR (pwrBtnEdge s1)) in
     powerEvent p1in s = Some s1 \<and>
     sevSegDispArr s1 = sevSegDispArr s \<and>
     currLedSRState s1 = currLedSRState s \<and>
     nextLedSRState s1 = nextLedSRState s \<and>
     sent (spi s1) = sent (spi s) @
        [(P3OUT (spi s) OR ALL_DISPS, P1OUT (spi s), 0x00),
         (0x00, P1OUT (spi s) OR LEDSR, LED_PLUGPWR)] \<and>
     currSysState s1 AND FLAG_PWR_OFF \<noteq> 0 \<and>
     powerEvent p1in' (pwrbtnPressISR (pwrBtnEdge s1)) = Some s2 \<and>
     currSysState s2 AND FLAG_PWR_OFF = 0 \<and>
     sent (spi s2) = sent (spi s1) @ refreshFrames (P1OUT (spi s1)) (sevSegDispArr s) @
        [(0x00, P1OUT (spi s1) OR LEDSR, currLedSRState s)] \<and>
     digitsOf (sevSegDispArr s2) = digitsOf (sevSegDispArr s) \<and>
     currLedSRState s2 = currLedSRState s \<and>
     ((\<forall>d\<in>set (sevSegDispArr s). steady d) \<longrightarrow>
        sevSegDispArr s2 = sevSegDispArr s \<and>
        map (\<lambda>(cs, p1, byte). byte) (refreshFrames (P1OUT (spi s1)) (sevSegDispArr s))
          = map currBinSegCode (sevSegDispArr s))"
proof -
  define s1 where "s1 = powerBranch s"
  define t where "t = pwrbtnPressISR (pwrBtnEdge s1)"
  define s2 where "s2 = powerBranch t"
  have c: "bit (currSysState s) (Suc 0)" and p: "\<not> bit (prevSysState s) (Suc 0)"
    using off was_on by (simp_all add: pwr_flag_bit pwr_flag_bit0)
  have fire1: "(currSysState s XOR prevSysState s) AND FLAG_PWR_OFF \<noteq> 0"
    using c p by (simp add: pwr_flag_bit pwr_bits)
  have e1: "powerEvent p1in s = Some s1"
    using fire1 waitForRelease_ends [OF rel1] by (simp add: powerEvent_def s1_def)
  note o = powerBranch_off [OF off, folded s1_def]
  note i = isr_after_edge [of s1, folded t_def]
  have ct: "\<not> bit (currSysState t) (Suc 0)" and pt: "bit (prevSysState t) (Suc 0)"
    using i(5,6) o(6,7) by simp_all
  have fire2: "(currSysState t XOR prevSysState t) AND FLAG_PWR_OFF \<noteq> 0"
    using ct pt by (simp add: pwr_flag_bit pwr_bits)
  have e2: "powerEvent p1in' t = Some s2"
    using fire2 waitForRelease_ends [OF rel2] by (simp add: powerEvent_def s2_def)
  have on: "currSysState t AND FLAG_PWR_OFF = 0" using ct by (simp add: pwr_flag_bit0)
  have lt: "length (sevSegDispArr t) = 8" using i(1) o(1) len by simp
  have idle: "P3OUT (spi t) = 0" using i(4) o(5) by simp
  note n = powerBranch_on [OF on lt idle, folded s2_def]
  have arr2: "sevSegDispArr s2 = map (\<lambda>d. commit (snd (hexToSevSeg d))) (sevSegDispArr s)"
    using n(1) i(1) o(1) by simp
  have d2: "digitsOf (sevSegDispArr s2) = digitsOf (sevSegDispArr s)"
    unfolding arr2 by (simp add: digitsOf_def commit_keeps hexToSevSeg_keeps)
  have sent2: "sent (spi s2) = sent (spi s1) @ refreshFrames (P1OUT (spi s1)) (sevSegDispArr s) @
        [(0x00, P1OUT (spi s1) OR LEDSR, currLedSRState s)]"
    using n(3) i(1,2,4) o(1,2) by simp
  have led2: "currLedSRState s2 = currLedSRState s" using n(2) i(2) o(2) by simp
  have off1: "currSysState s1 AND FLAG_PWR_OFF \<noteq> 0" using o(6) by (simp add: pwr_flag_bit)
  have on2: "currSysState s2 AND FLAG_PWR_OFF = 0"
    using on ct by (simp add: s2_def powerBranch_def Let_def case_prod_beta enableKeypad_def)
  have st: "(\<forall>d\<in>set (sevSegDispArr s). steady d) \<longrightarrow>
        sevSegDispArr s2 = sevSegDispArr s \<and>
        map (\<lambda>(cs, p1, byte). byte) (refreshFrames (P1OUT (spi s1)) (sevSegDispArr s))
          = map currBinSegCode (sevSegDispArr s)"
    using arr2 steady_refresh [of "sevSegDispArr s"] steady_frames [OF _ len] by simp
  show ?thesis
    unfolding Let_def s1_def [symmetric] t_def [symmetric] s2_def [symmetric]
    using e1 o(1,2,3,4) off1 e2 on2 sent2 d2 led2 st by simp
qed


lemma steady_shownDisp: "steady (shownDisp h p)"
  by (simp add: steady_def shownDisp_def commit_def hexToSevSeg_def Let_def)

lemma offRequested_fields:
  "sevSegDispArr offRequested = row9023 @ blankRow"
  "currSysState offRequested = FLAG_PWR_OFF"
  "prevSysState offRequested = 0"
  "spi offRequested = idleBus"
  "currLedSRState offRequested = LED_PUMP OR LED_CC OR LED_PLUGPWR"
  by (simp_all add: offRequested_def pwrbtnPressISR_def pwrBtnEdge_def examplePanel_def
      disableKeypad_def exampleKeypad_def KEYPAD_PWR_BTN_def FLAG_defs BIT_defs Let_def)

theorem power_off_then_on_witness:
  "powerEvent [0x00, 0x01] offRequested = Some (powerBranch offRequested) \<and>
   sevSegDispArr (powerBranch offRequested) = row9023 @ blankRow \<and>
   sent (spi (powerBranch offRequested)) = [(0xFF, 0x00, 0x00), (0x00, 0x40, 0x80)] \<and>
   powerEvent [0x01] (pwrbtnPressISR (pwrBtnEdge (powerBranch offRequested)))
     = Some (powerBranch (pwrbtnPressISR (pwrBtnEdge (powerBranch offRequested)))) \<and>
   sevSegDispArr (powerBranch (pwrbtnPressISR (pwrBtnEdge (powerBranch offRequested))))
     = row9023 @ blankRow \<and>
   currLedSRState (powerBranch (pwrbtnPressISR (pwrBtnEdge (powerBranch offRequested))))
     = LED_PUMP OR LED_CC OR LED_PLUGPWR"
proof -
  have h1: "length (sevSegDispArr offRequested) = 8"
    by (simp add: offRequested_fields row9023_def blankRow_def)
  have h2: "currSysState offRequested AND FLAG_PWR_OFF \<noteq> 0"
    by (simp add: offRequested_fields) (simp add: FLAG_defs BIT_defs)
  have h3: "prevSysState offRequested AND FLAG_PWR_OFF = 0"
    by (simp add: offRequested_fields)
  have h4: "\<exists>r\<in>set [0x00, 0x01 :: u8]. r AND KEYPAD_PWR_BTN \<noteq> 0"
    by (simp add: KEYPAD_PWR_BTN_def BIT0_def)
  have h5: "\<exists>r\<in>set [0x01 :: u8]. r AND KEYPAD_PWR_BTN \<noteq> 0"
    by (simp add: KEYPAD_PWR_BTN_def BIT0_def)
  have st: "\<forall>d\<in>set (sevSegDispArr offRequested). steady d"
    by (simp add: offRequested_fields row9023_def blankRow_def steady_shownDisp)
  show ?thesis
    using power_off_then_on [OF h1 h2 h3 h4 h5] st
    by (simp add: Let_def offRequested_fields idleBus_def ALL_DISPS_def LEDSR_def LED_defs BIT_defs)
qed

end
